theory Spec2Isabelle
  imports Complex_Main "HOL-Library.Word"
begin

unbundle bit_operations_syntax

section \<open>Persistent configuration store\<close>

text \<open>
  The emulated EEPROM is a byte array of \<open>EEPROM_SIZE\<close> cells. The library's
  \<open>EEPROM.read\<close> answers 0 outside the array and \<open>EEPROM.write\<close> ignores such an
  address; both guards are kept. An Arduino \<open>String\<close> that goes to the store is the list
  of its bytes.
\<close>

type_synonym byte = "8 word"
type_synonym eeprom = "nat \<Rightarrow> byte"

definition EEPROM_SIZE :: nat where "EEPROM_SIZE = 1024"
definition ADDR_SSID :: nat where "ADDR_SSID = 0"
definition ADDR_PASS :: nat where "ADDR_PASS = 70"
definition ADDR_CITY :: nat where "ADDR_CITY = 140"
definition ADDR_TZ :: nat where "ADDR_TZ = 210"
definition ADDR_GREETING :: nat where "ADDR_GREETING = 220"
definition ADDR_FIRMWARE_URL :: nat where "ADDR_FIRMWARE_URL = 430"
definition ADDR_SIGNATURE :: nat where "ADDR_SIGNATURE = 600"
definition ADDR_ETAG :: nat where "ADDR_ETAG = 610"
definition ADDR_LUCKY_URL :: nat where "ADDR_LUCKY_URL = 710"

lemmas addr_defs = EEPROM_SIZE_def ADDR_SSID_def ADDR_PASS_def ADDR_CITY_def ADDR_TZ_def
  ADDR_GREETING_def ADDR_FIRMWARE_URL_def ADDR_SIGNATURE_def ADDR_ETAG_def ADDR_LUCKY_URL_def

definition EEPROM_read :: "eeprom \<Rightarrow> nat \<Rightarrow> byte" where
  "EEPROM_read m a = (if a < EEPROM_SIZE then m a else 0)"

definition EEPROM_write :: "eeprom \<Rightarrow> nat \<Rightarrow> byte \<Rightarrow> eeprom" where
  "EEPROM_write m a v = (if a < EEPROM_SIZE then m(a := v) else m)"

text \<open>
  The globals that \<open>loadSettings\<close> assigns and \<open>saveSettings\<close> reads. \<open>int\<close> is 32 bits
  wide on the target; \<open>sint\<close> reads the signed value.
\<close>

record settings =
  wifiSSID :: "byte list"
  wifiPass :: "byte list"
  city :: "byte list"
  greetingUrl :: "byte list"
  firmwareUrl :: "byte list"
  luckyImageUrl :: "byte list"
  currentFirmwareETag :: "byte list"
  timezoneOffset :: "32 word"

text \<open>The initial values of the globals, as declared at the top of the sketch.\<close>

definition initial_settings :: settings where
  "initial_settings = \<lparr> wifiSSID = [], wifiPass = [], city = [], greetingUrl = [],
     firmwareUrl = [], luckyImageUrl = [], currentFirmwareETag = [], timezoneOffset = 0 \<rparr>"

subsection \<open>Local character buffers\<close>

text \<open>
  \<open>loadSettings\<close> copies each field into a local \<open>char buf[N]\<close>. A cell of such an
  array is \<open>None\<close> until it is written. A store outside the array, a read of a cell
  never written and a scan that leaves the array without meeting the terminator are
  undefined behaviour in C++; the model stops with a \<open>fault\<close> there.
\<close>

datatype fault = OutOfBounds nat nat | UninitialisedRead | Unterminated

type_synonym cbuf = "byte option list"

definition new_buf :: "nat \<Rightarrow> cbuf" where
  "new_buf n = replicate n None"

definition buf_store :: "cbuf \<Rightarrow> nat \<Rightarrow> byte \<Rightarrow> fault + cbuf" where
  "buf_store b i v = (if i < length b then Inr (b[i := Some v]) else Inl (OutOfBounds (length b) i))"

definition bind_f :: "fault + 'a \<Rightarrow> ('a \<Rightarrow> fault + 'b) \<Rightarrow> fault + 'b" where
  "bind_f r f = (case r of Inl e \<Rightarrow> Inl e | Inr x \<Rightarrow> f x)"

text \<open>\<open>for (int i = 0; i < n; ++i) buf[i] = char(EEPROM.read(addr + 1 + i));\<close> over the
  indices still to do.\<close>

fun copy_loop :: "eeprom \<Rightarrow> nat \<Rightarrow> nat list \<Rightarrow> cbuf \<Rightarrow> fault + cbuf" where
  "copy_loop m addr [] b = Inr b"
| "copy_loop m addr (i # is) b =
     bind_f (buf_store b i (EEPROM_read m (addr + 1 + i))) (copy_loop m addr is)"

text \<open>\<open>String(buf)\<close>: the bytes before the first NUL.\<close>

fun String_of_buf :: "cbuf \<Rightarrow> fault + byte list" where
  "String_of_buf [] = Inl Unterminated"
| "String_of_buf (None # r) = Inl UninitialisedRead"
| "String_of_buf (Some v # r) =
     (if v = 0 then Inr [] else bind_f (String_of_buf r) (\<lambda>s. Inr (v # s)))"

text \<open>
  One field of \<open>loadSettings\<close>. The seven blocks of the source differ only in the address,
  the size of \<open>buf\<close> and the extra loop bound \<open>i < bnd\<close> (absent for the first three
  fields: \<open>bnd = None\<close>).
\<close>

definition load_field :: "eeprom \<Rightarrow> nat \<Rightarrow> nat \<Rightarrow> nat option \<Rightarrow> fault + byte list" where
  "load_field m addr cap bnd =
     (let len = unat (EEPROM_read m addr) in
      if 0 < len \<and> len < 255 then
        bind_f (copy_loop m addr [0..<(case bnd of None \<Rightarrow> len | Some l \<Rightarrow> min len l)] (new_buf cap))
          (\<lambda>b. bind_f (buf_store b len 0) String_of_buf)
      else Inr [])"

text \<open>\<open>String::trim\<close> removes leading and trailing \<open>isspace\<close> bytes.\<close>

definition isspace_b :: "byte \<Rightarrow> bool" where
  "isspace_b c = (c = 32 \<or> (9 \<le> c \<and> c \<le> 13))"

definition trim_b :: "byte list \<Rightarrow> byte list" where
  "trim_b s = rev (dropWhile isspace_b (rev (dropWhile isspace_b s)))"

definition load_tz :: "eeprom \<Rightarrow> 32 word" where
  "load_tz m =
     (let b0 = (ucast (EEPROM_read m ADDR_TZ) :: 32 word);
          b1 = (ucast (EEPROM_read m (ADDR_TZ + 1)) :: 32 word);
          b2 = (ucast (EEPROM_read m (ADDR_TZ + 2)) :: 32 word);
          b3 = (ucast (EEPROM_read m (ADDR_TZ + 3)) :: 32 word)
      in (b0 AND 0xFF) OR push_bit 8 (b1 AND 0xFF) OR push_bit 16 (b2 AND 0xFF)
           OR push_bit 24 (b3 AND 0xFF))"

definition loadSettings :: "eeprom \<Rightarrow> fault + settings" where
  "loadSettings m =
     bind_f (load_field m ADDR_SSID 80 None) (\<lambda>ssid.
     bind_f (load_field m ADDR_PASS 80 None) (\<lambda>pass.
     bind_f (load_field m ADDR_CITY 80 None) (\<lambda>cty.
     bind_f (load_field m ADDR_GREETING 150 (Some 149)) (\<lambda>greet.
     bind_f (load_field m ADDR_FIRMWARE_URL 150 (Some 149)) (\<lambda>fw.
     bind_f (load_field m ADDR_ETAG 100 (Some 99)) (\<lambda>etag.
     bind_f (load_field m ADDR_LUCKY_URL 200 (Some 199)) (\<lambda>lucky.
     Inr \<lparr> wifiSSID = ssid, wifiPass = pass, city = cty, greetingUrl = greet,
           firmwareUrl = fw, luckyImageUrl = lucky, currentFirmwareETag = trim_b etag,
           timezoneOffset = load_tz m \<rparr>)))))))"

text \<open>
  One field of \<open>saveSettings\<close>. \<open>len\<close> is a \<open>uint8_t\<close>, so the length is first reduced
  modulo 256; the three URL fields then clamp it (\<open>if (len > bnd) len = bnd\<close>), the first
  three fields do not (\<open>bnd = None\<close>).
\<close>

definition save_field :: "eeprom \<Rightarrow> nat \<Rightarrow> nat option \<Rightarrow> byte list \<Rightarrow> eeprom" where
  "save_field m addr bnd s =
     (let len0 = length s mod 256;
          len = (case bnd of None \<Rightarrow> len0 | Some l \<Rightarrow> if len0 > l then l else len0)
      in if len > 0 then
           fold (\<lambda>i m'. EEPROM_write m' (addr + 1 + i) (s ! i)) [0..<len]
             (EEPROM_write m addr (of_nat len))
         else EEPROM_write m addr 0)"

definition save_tz :: "eeprom \<Rightarrow> 32 word \<Rightarrow> eeprom" where
  "save_tz m tz =
     (let m1 = EEPROM_write m ADDR_TZ (ucast (tz AND 0xFF));
          m2 = EEPROM_write m1 (ADDR_TZ + 1) (ucast (signed_drop_bit 8 tz AND 0xFF));
          m3 = EEPROM_write m2 (ADDR_TZ + 2) (ucast (signed_drop_bit 16 tz AND 0xFF))
      in EEPROM_write m3 (ADDR_TZ + 3) (ucast (signed_drop_bit 24 tz AND 0xFF)))"

definition save_signature :: "eeprom \<Rightarrow> eeprom" where
  "save_signature m =
     EEPROM_write (EEPROM_write (EEPROM_write (EEPROM_write m ADDR_SIGNATURE 0x43)
       (ADDR_SIGNATURE + 1) 0x46) (ADDR_SIGNATURE + 2) 0x47) (ADDR_SIGNATURE + 3) 0x31"

definition saveSettings :: "settings \<Rightarrow> eeprom \<Rightarrow> eeprom" where
  "saveSettings cfg m =
     (let m1 = save_field m ADDR_SSID None (wifiSSID cfg);
          m2 = save_field m1 ADDR_PASS None (wifiPass cfg);
          m3 = save_field m2 ADDR_CITY None (city cfg);
          m4 = save_field m3 ADDR_GREETING (Some 200) (greetingUrl cfg);
          m5 = save_field m4 ADDR_FIRMWARE_URL (Some 150) (firmwareUrl cfg);
          m6 = save_field m5 ADDR_LUCKY_URL (Some 200) (luckyImageUrl cfg);
          m7 = save_tz m6 (timezoneOffset cfg)
      in save_signature m7)"

text \<open>
  The part of \<open>setup\<close> that decides the boot mode and fills the configuration globals:
  \<open>loadSettings\<close> runs only behind the check of the four signature bytes \<open>CFG1\<close>;
  without them the globals keep their initial values and the device enters the
  configuration portal (\<open>systemMode = 1\<close>).
\<close>

definition signature_present :: "eeprom \<Rightarrow> bool" where
  "signature_present m \<longleftrightarrow>
     EEPROM_read m ADDR_SIGNATURE = 0x43 \<and> EEPROM_read m (ADDR_SIGNATURE + 1) = 0x46 \<and>
     EEPROM_read m (ADDR_SIGNATURE + 2) = 0x47 \<and> EEPROM_read m (ADDR_SIGNATURE + 3) = 0x31"

definition setup_config :: "eeprom \<Rightarrow> bool \<Rightarrow> fault + (int \<times> settings)" where
  "setup_config m buttonPressed =
     (let configMode = (\<not> signature_present m \<or> buttonPressed);
          systemMode = (if configMode then 1 else 0)
      in if configMode then
           (if signature_present m then bind_f (loadSettings m) (\<lambda>cfg. Inr (systemMode, cfg))
            else Inr (systemMode, initial_settings))
         else bind_f (loadSettings m) (\<lambda>cfg. Inr (systemMode, cfg)))"


text \<open>Erased flash reads \<open>0xFF\<close> in every cell.\<close>

definition erased_eeprom :: eeprom where
  "erased_eeprom = (\<lambda>_. 0xFF)"

text \<open>A configuration as the portal form can submit it: a city name of 70 bytes and the
  timezone UTC+7 (25200 seconds, low byte \<open>0x70\<close>), every other field short or empty.\<close>

definition long_city_settings :: settings where
  "long_city_settings = initial_settings\<lparr> wifiSSID := [0x61], city := replicate 70 0x61,
     timezoneOffset := 25200 \<rparr>"

text \<open>A configuration fits the store when every field is shorter than the region and
  the buffer it goes through, and holds no NUL byte (which would end the C string that
  \<open>loadSettings\<close> builds).\<close>

definition fits :: "settings \<Rightarrow> bool" where
  "fits cfg \<longleftrightarrow>
     length (wifiSSID cfg) \<le> 69 \<and> 0 \<notin> set (wifiSSID cfg) \<and>
     length (wifiPass cfg) \<le> 69 \<and> 0 \<notin> set (wifiPass cfg) \<and>
     length (city cfg) \<le> 69 \<and> 0 \<notin> set (city cfg) \<and>
     length (greetingUrl cfg) \<le> 149 \<and> 0 \<notin> set (greetingUrl cfg) \<and>
     length (firmwareUrl cfg) \<le> 149 \<and> 0 \<notin> set (firmwareUrl cfg) \<and>
     length (luckyImageUrl cfg) \<le> 199 \<and> 0 \<notin> set (luckyImageUrl cfg)"

section \<open>Weather parsing\<close>

subsection \<open>The operations of the Arduino \<open>String\<close> class that the parser uses\<close>

text \<open>
  Text that is parsed is a \<open>string\<close>: the list of the bytes of the Arduino \<open>String\<close>.
  The operations below follow the library's behaviour on strings without an embedded
  NUL byte. Positions are \<open>int\<close> where the library answers \<open>-1\<close> for "not found".
\<close>

text \<open>\<open>isspace\<close> of the C locale: space, and the control characters 9 to 13.\<close>

definition isspace_c :: "char \<Rightarrow> bool" where
  "isspace_c c = (of_char c = (32::nat) \<or> (9 \<le> (of_char c :: nat) \<and> (of_char c :: nat) \<le> 13))"

definition trim :: "string \<Rightarrow> string" where
  "trim s = rev (dropWhile isspace_c (rev (dropWhile isspace_c s)))"

fun index_from :: "char \<Rightarrow> string \<Rightarrow> nat \<Rightarrow> int" where
  "index_from ch [] k = - 1"
| "index_from ch (c # cs) k = (if c = ch then int k else index_from ch cs (Suc k))"

text \<open>\<open>indexOf(char ch, unsigned int fromIndex)\<close>.\<close>

definition indexOf_char :: "string \<Rightarrow> char \<Rightarrow> nat \<Rightarrow> int" where
  "indexOf_char s ch fromIndex =
     (if fromIndex \<ge> length s then - 1 else index_from ch (drop fromIndex s) fromIndex)"

fun find_sub :: "string \<Rightarrow> string \<Rightarrow> nat \<Rightarrow> int" where
  "find_sub pat [] k = - 1"
| "find_sub pat (c # cs) k =
     (if take (length pat) (c # cs) = pat then int k else find_sub pat cs (Suc k))"

text \<open>\<open>indexOf(const String &s)\<close>, searching from position 0.\<close>

definition indexOf_str :: "string \<Rightarrow> string \<Rightarrow> int" where
  "indexOf_str s pat = find_sub pat s 0"

text \<open>\<open>substring(left, right)\<close> swaps its bounds when they are out of order, answers the
  empty string when \<open>left\<close> is past the end and clamps \<open>right\<close> to the length;
  \<open>substring(left)\<close> is \<open>substring(left, length)\<close>.\<close>

definition substring :: "string \<Rightarrow> nat \<Rightarrow> nat \<Rightarrow> string" where
  "substring s left right =
     (let l = (if left > right then right else left);
          r = (if left > right then left else right)
      in if l \<ge> length s then [] else take (min r (length s) - l) (drop l s))"

definition substring_from :: "string \<Rightarrow> nat \<Rightarrow> string" where
  "substring_from s left = substring s left (length s)"

text \<open>\<open>replace(find, replace)\<close>: nothing on an empty string or an empty pattern,
  otherwise every occurrence, found from left to right, is replaced.\<close>

function replace :: "string \<Rightarrow> string \<Rightarrow> string \<Rightarrow> string" where
  "replace fnd rep s =
     (if s = [] \<or> fnd = [] then s
      else if take (length fnd) s = fnd then rep @ replace fnd rep (drop (length fnd) s)
      else hd s # replace fnd rep (tl s))"
  by pat_completeness auto
termination
  by (relation "measure (\<lambda>(fnd, rep, s). length s)") (auto simp: neq_Nil_conv)

definition endsWith :: "string \<Rightarrow> string \<Rightarrow> bool" where
  "endsWith s suffix =
     (length suffix \<le> length s \<and> drop (length s - length suffix) s = suffix)"

definition is_digit :: "char \<Rightarrow> bool" where
  "is_digit c = (48 \<le> (of_char c :: nat) \<and> (of_char c :: nat) \<le> 57)"

fun dec_value :: "string \<Rightarrow> nat \<Rightarrow> nat" where
  "dec_value [] acc = acc"
| "dec_value (c # cs) acc = dec_value cs (10 * acc + (of_char c - 48))"

text \<open>
  \<open>toFloat\<close> is \<open>atof\<close>. The parser applies it only to strings made of digits and
  dots, where \<open>atof\<close> reads the digits, one dot and the digits after it, and answers 0
  when it reads no digit at all. The model keeps the exact decimal value as a rational;
  the single-precision value of the firmware is the nearest float to it.
\<close>

definition toFloat :: "string \<Rightarrow> rat" where
  "toFloat s =
     (let ip = takeWhile is_digit s;
          rest = dropWhile is_digit s;
          fp = (case rest of [] \<Rightarrow> [] | c # r \<Rightarrow> if c = CHR ''.'' then takeWhile is_digit r else [])
      in if ip = [] \<and> fp = [] then 0
         else of_nat (dec_value ip 0) + of_nat (dec_value fp 0) / 10 ^ length fp)"

text \<open>C's \<open>round\<close>: to the nearest integer, halves away from zero.\<close>

definition round_c :: "rat \<Rightarrow> int" where
  "round_c x = (if x \<ge> 0 then \<lfloor>x + 1 / 2\<rfloor> else \<lceil>x - 1 / 2\<rceil>)"

function dec_digits :: "nat \<Rightarrow> string" where
  "dec_digits n = (if n < 10 then [char_of (48 + n)] else dec_digits (n div 10) @ [char_of (48 + n mod 10)])"
  by pat_completeness auto
termination
  by (relation "measure id") auto

text \<open>\<open>String(int)\<close>: the decimal digits, with a minus sign for a negative value.\<close>

definition String_of_int :: "int \<Rightarrow> string" where
  "String_of_int i = (if i < 0 then CHR ''-'' # dec_digits (nat (- i)) else dec_digits (nat i))"

subsection \<open>The weather snapshot and \<open>parseWeatherData\<close>\<close>

record weather =
  weatherTemp :: string
  weatherCond :: string
  weatherHum :: string
  weatherWind :: string
  weatherPress :: string

text \<open>The wind loop copies digits and dots and stops at a space once it holds a digit or
  dot; the pressure loop stops at any other character once it holds one.\<close>

fun wind_scan :: "string \<Rightarrow> string \<Rightarrow> string" where
  "wind_scan [] windNum = windNum"
| "wind_scan (c # cs) windNum =
     (if is_digit c \<or> c = CHR ''.'' then wind_scan cs (windNum @ [c])
      else if c = CHR '' '' \<and> length windNum > 0 then windNum
      else wind_scan cs windNum)"

fun press_scan :: "string \<Rightarrow> string \<Rightarrow> string" where
  "press_scan [] pressNum = pressNum"
| "press_scan (c # cs) pressNum =
     (if is_digit c \<or> c = CHR ''.'' then press_scan cs (pressNum @ [c])
      else if pressNum \<noteq> [] then pressNum
      else press_scan cs pressNum)"

text \<open>The degree sign of the source text is the two bytes \<open>0xC2 0xB0\<close> of its UTF-8 form.\<close>

definition degree_sign :: string where
  "degree_sign = [CHR 0xC2, CHR 0xB0]"

definition clean_temp :: "string \<Rightarrow> string" where
  "clean_temp tempStr =
     trim (replace ''C'' [] (replace degree_sign [] (replace (degree_sign @ ''C'') [] tempStr)))"

definition clean_hum :: "string \<Rightarrow> string" where
  "clean_hum humStr = (let h = trim humStr in if \<not> endsWith h ''%'' then h @ ''%'' else h)"

text \<open>
  The two conversions. The firmware holds the number read, the quotient and the product
  in \<open>float\<close> variables and casts the rounded value to a 32-bit \<open>int\<close>; the model
  computes on the exact rationals and on unbounded integers. The two agree where the
  exact quotient or product is further from a half than the error of single precision
  and the rounded value fits 32 bits; next to a half they can differ (the wind
  \<open>1.79999999\<close> is 0 here and 1 in the firmware, whose \<open>float\<close> quotient is 0.5).
\<close>

definition clean_wind :: "string \<Rightarrow> string" where
  "clean_wind windStr =
     (let windNum = wind_scan windStr [] in
      if length windNum = 0 then ''N/A''
      else String_of_int (round_c (toFloat windNum / (36 / 10))))"

definition clean_press :: "string \<Rightarrow> string" where
  "clean_press pressStr =
     (let pressNum = press_scan pressStr [] in
      if length pressNum = 0 then ''N/A''
      else String_of_int (round_c (toFloat pressNum * (75006 / 100000))))"

definition header_end :: string where
  "header_end = [CHR 0x0D, CHR 0x0A, CHR 0x0D, CHR 0x0A]"

text \<open>
  The parsing proper, on the trimmed body: \<open>None\<close> where the source returns early (empty
  text, fewer than four separators), otherwise the five cleaned fields in the order
  temperature, condition, humidity, wind, pressure.
\<close>

definition body_fields :: "string \<Rightarrow> (string \<times> string \<times> string \<times> string \<times> string) option" where
  "body_fields result =
     (if length result = 0 then None
      else
        (let idx1 = indexOf_char result (CHR ''|'') 0;
             idx2 = indexOf_char result (CHR ''|'') (nat (idx1 + 1));
             idx3 = indexOf_char result (CHR ''|'') (nat (idx2 + 1));
             idx4 = indexOf_char result (CHR ''|'') (nat (idx3 + 1))
         in if idx1 < 0 \<or> idx2 < 0 \<or> idx3 < 0 \<or> idx4 < 0 then None
            else Some (clean_temp (substring result 0 (nat idx1)),
                       trim (substring result (nat (idx1 + 1)) (nat idx2)),
                       clean_hum (substring result (nat (idx2 + 1)) (nat idx3)),
                       clean_wind (substring result (nat (idx3 + 1)) (nat idx4)),
                       clean_press (substring_from result (nat (idx4 + 1))))))"

text \<open>
  \<open>parseWeatherData\<close> gets the whole response. \<open>weather_fields\<close> is its computation up to
  the assignments: it drops the header (everything up to the first empty line), trims
  and parses. \<open>parseWeatherData\<close> returns nothing; it leaves the snapshot untouched on
  an early return and assigns all five fields otherwise.
\<close>

definition weather_fields :: "string \<Rightarrow> (string \<times> string \<times> string \<times> string \<times> string) option" where
  "weather_fields response =
     (let bodyPos = indexOf_str response header_end;
          result = trim (if bodyPos \<noteq> - 1 then substring_from response (nat (bodyPos + 4))
                         else response)
      in body_fields result)"

definition parseWeatherData :: "string \<Rightarrow> 'a weather_scheme \<Rightarrow> 'a weather_scheme" where
  "parseWeatherData response w =
     (case weather_fields response of
        None \<Rightarrow> w
      | Some (tempStr, condStr, hum, wind, press) \<Rightarrow>
          w\<lparr> weatherTemp := tempStr, weatherCond := condStr, weatherHum := hum,
              weatherWind := wind, weatherPress := press \<rparr>)"

text \<open>
  \<open>getWeather\<close> of the earlier revision \<open>hu-061.ino\<close> fetches in one blocking call. Its
  inputs are the Wi-Fi state, the answers of \<open>connect\<close> and of the search for the end of
  the header, and the body line that \<open>readStringUntil\<close> returns. It parses with the same
  statements, assigns the snapshot, and returns whether temperature and condition are
  both non-empty; the caller stores the answer in \<open>weatherValid\<close>.
\<close>

definition getWeather_hu061 ::
  "bool \<Rightarrow> bool \<Rightarrow> bool \<Rightarrow> string \<Rightarrow> 'a weather_scheme \<Rightarrow> 'a weather_scheme \<times> bool" where
  "getWeather_hu061 wifi connect_ok header_found line w =
     (if \<not> wifi then (w, False)
      else if \<not> connect_ok then (w, False)
      else if \<not> header_found then (w, False)
      else
        (case body_fields (trim line) of
           None \<Rightarrow> (w, False)
         | Some (tempStr, condStr, hum, wind, press) \<Rightarrow>
             (w\<lparr> weatherTemp := tempStr, weatherCond := condStr, weatherHum := hum,
                 weatherWind := wind, weatherPress := press \<rparr>,
              \<not> (tempStr = [] \<or> condStr = []))))"

section \<open>The device globals and the mode controller\<close>

datatype WeatherTaskState = W_IDLE | W_CONNECTING | W_WAIT_HEADER | W_READ_BODY

datatype ForecastTaskState = F_IDLE | F_CONNECTING | F_WAIT_HEADER | F_READ_BODY

text \<open>
  The globals of the sketch that the mode controller and the network tasks read and
  write, with the two \<open>static\<close> locals of \<open>loop\<close>. \<open>unsigned long\<close> is 32 bits wide on the
  target, so a difference of two \<open>millis()\<close> readings wraps around. \<open>systemMode\<close> is the
  \<open>int\<close> of the source: 0 normal, 1 configuration portal, 2 manual update portal,
  3 sleep confirmation, 4 remote update.
\<close>

record device = weather +
  weatherValid :: bool
  lastWeatherFetch :: "32 word"
  weatherTaskState :: WeatherTaskState
  weatherTaskTimer :: "32 word"
  weatherResponseBuffer :: string
  forecasts :: "string list"
  forecastValid :: bool
  lastForecastFetch :: "32 word"
  forecastTaskState :: ForecastTaskState
  lastForecastError :: string
  currentScreen :: int
  lastScreenSwitch :: "32 word"
  systemMode :: int
  sleepSelectedYes :: bool
  btnPressStart :: "32 word"
  btnActionTaken :: bool
  pendingOTA_ETag :: "byte list"
  lastOTACheck :: "32 word"

text \<open>
  A call that does not come back to \<open>loop\<close> ends the run of the loop: \<open>ESP.restart()\<close>,
  \<open>enterSleep()\<close> (which sleeps until the button wakes the device and then restarts) and
  \<open>startOTAUpdate()\<close> (every path of which ends in a restart). Each carries the globals
  as they are at the call.
\<close>

datatype 'a flow = Continue 'a | EnterSleep 'a | StartOTA 'a | Restart 'a

text \<open>
  The button block at the head of \<open>loop\<close>. \<open>low\<close> is \<open>digitalRead(BUTTON_PIN) == LOW\<close>;
  \<open>t1\<close> and \<open>t2\<close> are what the first and the second call of \<open>millis()\<close> in the block
  answer. The pressed branch calls it a first time only when a press starts, the
  released branch a second time only for the click in normal mode. Starting the two
  portals draws and opens the access point; it changes none of the globals here.
\<close>

definition button_block :: "bool \<Rightarrow> 32 word \<Rightarrow> 32 word \<Rightarrow> device \<Rightarrow> device flow" where
  "button_block low t1 t2 d =
     (if low then
        (let d1 = (if btnPressStart d = 0 then d\<lparr> btnPressStart := t1, btnActionTaken := False \<rparr> else d);
             now = (if btnPressStart d = 0 then t2 else t1)
         in if now - btnPressStart d1 > 2000 \<and> \<not> btnActionTaken d1 then
              (if systemMode d1 = 0 then
                 Continue (d1\<lparr> systemMode := 3, sleepSelectedYes := False, btnActionTaken := True \<rparr>)
               else if systemMode d1 = 3 then
                 (if sleepSelectedYes d1 then EnterSleep d1
                  else Continue (d1\<lparr> systemMode := 1, btnActionTaken := True \<rparr>))
               else if systemMode d1 = 1 then
                 Continue (d1\<lparr> systemMode := 2, btnActionTaken := True \<rparr>)
               else if systemMode d1 = 2 then StartOTA (d1\<lparr> systemMode := 4 \<rparr>)
               else Continue d1)
            else Continue d1)
      else if btnPressStart d \<noteq> 0 then
        (if t1 - btnPressStart d > 50 then
           (if \<not> btnActionTaken d \<and> systemMode d = 3 then
              Continue (d\<lparr> sleepSelectedYes := \<not> sleepSelectedYes d,
                           btnPressStart := 0, btnActionTaken := False \<rparr>)
            else if \<not> btnActionTaken d \<and> systemMode d = 1 then Restart d
            else if \<not> btnActionTaken d \<and> systemMode d = 0 then
              Continue (d\<lparr> currentScreen := 4, lastScreenSwitch := t2,
                           btnPressStart := 0, btnActionTaken := False \<rparr>)
            else if \<not> btnActionTaken d \<and> systemMode d = 2 then Restart d
            else Continue (d\<lparr> btnPressStart := 0, btnActionTaken := False \<rparr>))
         else Continue (d\<lparr> btnPressStart := 0, btnActionTaken := False \<rparr>))
      else Continue d)"

text \<open>A recorded sequence of button samples, one per pass of the loop; the run stops at
  the first sample after which control leaves the loop.\<close>

fun run_buttons :: "(bool \<times> 32 word \<times> 32 word) list \<Rightarrow> device \<Rightarrow> device flow" where
  "run_buttons [] d = Continue d"
| "run_buttons ((low, t1, t2) # rest) d =
     (case button_block low t1 t2 d of Continue d' \<Rightarrow> run_buttons rest d' | other \<Rightarrow> other)"

subsection \<open>The mode controller of the specification\<close>

text \<open>
  The controller as the specification words it, over its own mode names and with its own
  record of the press in progress, to be compared with the button block over whole
  recorded sequences of samples. \<open>c_press\<close> is \<open>None\<close> while the button is up; while it
  is down it holds the time at which the press began and whether an action was already
  taken in this hold. \<open>c_selection\<close> is \<open>True\<close> for "Yes"; \<open>c_lucky\<close> tells whether the
  lucky-number screen is the one requested.
\<close>

datatype SystemMode = Normal | ConfigPortal | ManualUpdatePortal | SleepConfirm | RemoteUpdate

record controller =
  c_mode :: SystemMode
  c_selection :: bool
  c_lucky :: bool
  c_press :: "(32 word \<times> bool) option"

definition action_taken :: "controller \<Rightarrow> controller" where
  "action_taken c = c\<lparr> c_press := map_option (\<lambda>(start, taken). (start, True)) (c_press c) \<rparr>"

definition released :: "controller \<Rightarrow> controller" where
  "released c = c\<lparr> c_press := None \<rparr>"

text \<open>The hold row of the table: what a hold of more than 2000 ms does in each mode, once
  per hold.\<close>

definition hold_row :: "controller \<Rightarrow> controller flow" where
  "hold_row c =
     (case c_mode c of
        Normal \<Rightarrow> Continue (action_taken (c\<lparr> c_mode := SleepConfirm, c_selection := False \<rparr>))
      | SleepConfirm \<Rightarrow>
          if c_selection c then EnterSleep c
          else Continue (action_taken (c\<lparr> c_mode := ConfigPortal \<rparr>))
      | ConfigPortal \<Rightarrow> Continue (action_taken (c\<lparr> c_mode := ManualUpdatePortal \<rparr>))
      | ManualUpdatePortal \<Rightarrow> StartOTA (c\<lparr> c_mode := RemoteUpdate \<rparr>)
      | RemoteUpdate \<Rightarrow> Continue c)"

text \<open>The release row: what the release of a press of more than 50 ms does when no hold
  action was taken in that press.\<close>

definition release_row :: "controller \<Rightarrow> controller flow" where
  "release_row c =
     (case c_mode c of
        SleepConfirm \<Rightarrow> Continue (released (c\<lparr> c_selection := \<not> c_selection c \<rparr>))
      | ConfigPortal \<Rightarrow> Restart c
      | ManualUpdatePortal \<Rightarrow> Restart c
      | Normal \<Rightarrow> Continue (released (c\<lparr> c_lucky := True \<rparr>))
      | RemoteUpdate \<Rightarrow> Continue (released c))"

text \<open>
  One sample \<open>(low, t1, t2)\<close>: the level of the button and the two clock readings of the
  pass. A press begins at the first reading of the first sample that finds the button
  down; the time held is measured from there.
\<close>

definition table_sample :: "bool \<times> 32 word \<times> 32 word \<Rightarrow> controller \<Rightarrow> controller flow" where
  "table_sample s c =
     (case s of (low, t1, t2) \<Rightarrow>
        if low then
          (case c_press c of
             None \<Rightarrow>
               if t2 - t1 > 2000 then hold_row (c\<lparr> c_press := Some (t1, False) \<rparr>)
               else Continue (c\<lparr> c_press := Some (t1, False) \<rparr>)
           | Some (start, taken) \<Rightarrow>
               if t1 - start > 2000 \<and> \<not> taken then hold_row c else Continue c)
        else
          (case c_press c of
             None \<Rightarrow> Continue c
           | Some (start, taken) \<Rightarrow>
               if t1 - start > 50 \<and> \<not> taken then release_row c else Continue (released c)))"

fun table_run :: "(bool \<times> 32 word \<times> 32 word) list \<Rightarrow> controller \<Rightarrow> controller flow" where
  "table_run [] c = Continue c"
| "table_run (s # rest) c =
     (case table_sample s c of Continue c' \<Rightarrow> table_run rest c' | other \<Rightarrow> other)"




section \<open>Network task engine\<close>

text \<open>
  What a handler call observes of the world is its environment: the answers of the
  Wi-Fi and TLS client calls and of the successive calls of \<open>millis()\<close>. The calls that
  act on a client are logged, in order, next to the new globals.
\<close>

datatype io_action = Connect | Print | Read | FindHeaderEnd | ParseJson | Stop

record weather_env =
  we_wifi :: bool
  we_connect :: bool
  we_available :: bool
  we_connected :: bool
  we_incoming :: "(char \<times> 32 word) list"
  we_t1 :: "32 word"
  we_t2 :: "32 word"
  we_t3 :: "32 word"

text \<open>
  The body loop of \<open>W_READ_BODY\<close>: \<open>incoming\<close> lists the bytes the client has available,
  each with the answer of the \<open>millis()\<close> call that follows its read. The loop appends
  a byte and leaves once more than 5 ms have passed since \<open>startLoop\<close>, or when no byte
  is left.
\<close>

fun read_burst :: "32 word \<Rightarrow> (char \<times> 32 word) list \<Rightarrow> string \<Rightarrow> string" where
  "read_burst startLoop [] buf = buf"
| "read_burst startLoop ((c, t) # rest) buf =
     (if t - startLoop > 5 then buf @ [c] else read_burst startLoop rest (buf @ [c]))"

definition handleWeatherTask :: "weather_env \<Rightarrow> device \<Rightarrow> device \<times> io_action list" where
  "handleWeatherTask e d =
     (case weatherTaskState d of
        W_IDLE \<Rightarrow>
          (if (we_t1 e - lastWeatherFetch d > 900000 \<or> (currentScreen d = 1 \<and> \<not> weatherValid d))
              \<and> forecastTaskState d = F_IDLE
           then (d\<lparr> weatherTaskState := W_CONNECTING \<rparr>, [])
           else (d, []))
      | W_CONNECTING \<Rightarrow>
          (if we_wifi e then
             (if we_connect e then
                (d\<lparr> weatherTaskState := W_WAIT_HEADER, weatherTaskTimer := we_t1 e,
                     weatherResponseBuffer := [] \<rparr>, [Connect, Print])
              else
                (d\<lparr> weatherTaskState := W_IDLE, lastWeatherFetch := we_t1 e - 840000 \<rparr>, [Connect]))
           else (d, []))
      | W_WAIT_HEADER \<Rightarrow>
          (let d1 = (if we_available e
                     then d\<lparr> weatherTaskState := W_READ_BODY, weatherTaskTimer := we_t1 e \<rparr> else d);
               now = (if we_available e then we_t2 e else we_t1 e)
           in if now - weatherTaskTimer d1 > 10000
              then (d1\<lparr> weatherTaskState := W_IDLE \<rparr>, [Stop]) else (d1, []))
      | W_READ_BODY \<Rightarrow>
          (let buf = read_burst (we_t1 e) (we_incoming e) (weatherResponseBuffer d);
               reads = replicate (length buf - length (weatherResponseBuffer d)) Read;
               d1 = d\<lparr> weatherResponseBuffer := buf \<rparr>;
               finished = (\<not> we_connected e \<and> \<not> we_available e);
               d2 = (if finished
                     then (parseWeatherData buf d1)\<lparr> weatherValid := True,
                            lastWeatherFetch := we_t2 e, weatherTaskState := W_IDLE \<rparr>
                     else d1);
               now = (if finished then we_t3 e else we_t2 e)
           in if now - weatherTaskTimer d2 > 10000
              then (d2\<lparr> weatherTaskState := W_IDLE \<rparr>,
                    reads @ (if finished then [Stop] else []) @ [Stop])
              else (d2, reads @ (if finished then [Stop] else []))))"

text \<open>
  \<open>parseForecastData\<close> reads the JSON body from the stream through the ArduinoJson
  library and composes one line per day. Its outcome is part of the environment: the
  allocation of the document fails, the deserialisation fails with a message, the
  \<open>weather\<close> array is missing or shorter than three, or the three composed lines.
\<close>

datatype forecast_parse = HeapFail | JsonError string | NoWeatherArray | Lines string string string

record forecast_env =
  fe_wifi :: bool
  fe_connect :: bool
  fe_header_end :: bool
  fe_parse :: forecast_parse
  fe_t1 :: "32 word"

definition retry_in_5_min :: "32 word \<Rightarrow> 32 word" where
  "retry_in_5_min now = now - 3600000 + 300000"

definition parseForecastData :: "forecast_env \<Rightarrow> device \<Rightarrow> device" where
  "parseForecastData e d =
     (case fe_parse e of
        HeapFail \<Rightarrow>
          d\<lparr> lastForecastError := ''Heap Fail: JD'', lastForecastFetch := retry_in_5_min (fe_t1 e) \<rparr>
      | JsonError msg \<Rightarrow>
          d\<lparr> lastForecastError := ''JSON Err: '' @ msg, lastForecastFetch := retry_in_5_min (fe_t1 e) \<rparr>
      | NoWeatherArray \<Rightarrow>
          d\<lparr> lastForecastError := ''No Weather Arr'', lastForecastFetch := retry_in_5_min (fe_t1 e) \<rparr>
      | Lines l0 l1 l2 \<Rightarrow>
          (let d1 = d\<lparr> forecasts := [l0, l1, l2] \<rparr>
           in if length l0 > 0
              then d1\<lparr> forecastValid := True, lastForecastError := ''Success'',
                       lastForecastFetch := fe_t1 e \<rparr>
              else d1\<lparr> lastForecastError := ''Parse Fail'',
                       lastForecastFetch := retry_in_5_min (fe_t1 e) \<rparr>))"

definition handleForecastTask :: "forecast_env \<Rightarrow> device \<Rightarrow> device \<times> io_action list" where
  "handleForecastTask e d =
     (case forecastTaskState d of
        F_IDLE \<Rightarrow>
          (if (fe_t1 e - lastForecastFetch d > 3600000 \<or> \<not> forecastValid d)
              \<and> weatherTaskState d = W_IDLE
           then (d\<lparr> forecastTaskState := F_CONNECTING \<rparr>, [])
           else (d, []))
      | F_CONNECTING \<Rightarrow>
          (if \<not> fe_wifi e then
             (d\<lparr> lastForecastError := ''No WiFi'', lastForecastFetch := retry_in_5_min (fe_t1 e),
                  forecastTaskState := F_IDLE \<rparr>, [])
           else if \<not> fe_connect e then
             (d\<lparr> lastForecastError := ''Connect Fail'',
                  lastForecastFetch := retry_in_5_min (fe_t1 e),
                  forecastTaskState := F_IDLE \<rparr>, [Connect])
           else if \<not> fe_header_end e then
             (d\<lparr> lastForecastError := ''Header Fail'',
                  lastForecastFetch := retry_in_5_min (fe_t1 e),
                  forecastTaskState := F_IDLE \<rparr>, [Connect, Print, FindHeaderEnd, Stop])
           else
             ((parseForecastData e (d\<lparr> lastForecastError := ''Connected...'' \<rparr>))
                \<lparr> forecastTaskState := F_IDLE \<rparr>,
              [Connect, Print, FindHeaderEnd, ParseJson, Stop]))
      | F_WAIT_HEADER \<Rightarrow> (d\<lparr> forecastTaskState := F_IDLE \<rparr>, [])
      | F_READ_BODY \<Rightarrow> (d\<lparr> forecastTaskState := F_IDLE \<rparr>, []))"

text \<open>The remainder of C, which truncates towards zero.\<close>

definition c_rem :: "int \<Rightarrow> int \<Rightarrow> int" where
  "c_rem a b = sgn a * (\<bar>a\<bar> mod \<bar>b\<bar>)"

text \<open>The screen rotation of \<open>loop\<close>, which may start a forecast fetch when it reaches the
  forecast screen. \<open>now\<close> is the reading taken at the head of the regular part of the
  loop, \<open>t\<close> the later one in the staleness test.\<close>

definition switch_screen :: "32 word \<Rightarrow> 32 word \<Rightarrow> device \<Rightarrow> device" where
  "switch_screen now t d =
     (let interval = (if currentScreen d = 4 then 10000
                      else if currentScreen d = 3 then 45000
                      else if currentScreen d = 2 then 45000 else (15000 :: 32 word))
      in if now - lastScreenSwitch d > interval then
           (let d1 = d\<lparr> currentScreen := (if currentScreen d = 4 then 0
                                            else c_rem (currentScreen d + 1) 4),
                         lastScreenSwitch := now \<rparr>
            in if currentScreen d1 = 2
                  \<and> (t - lastForecastFetch d1 > 3600000 \<or> \<not> forecastValid d1)
                  \<and> forecastTaskState d1 = F_IDLE \<and> weatherTaskState d1 = W_IDLE
               then d1\<lparr> forecastTaskState := F_CONNECTING \<rparr> else d1)
         else d)"

section \<open>Firmware update engine\<close>

subsection \<open>The update check\<close>

text \<open>The environment of one check: the Wi-Fi state, whether the TLS client could be
  allocated, and what \<open>http.begin\<close>, \<open>http.GET\<close> and \<open>http.header("ETag")\<close> answer.\<close>

record check_env =
  ce_wifi :: bool
  ce_client :: bool
  ce_begin :: bool
  ce_httpCode :: int
  ce_etag :: "byte list"

definition HTTP_CODE_OK :: int where "HTTP_CODE_OK = 200"

text \<open>\<open>checkForFirmwareUpdate\<close> of the current firmware: it only sets the pending
  request that \<open>loop\<close> picks up.\<close>

definition checkForFirmwareUpdate :: "check_env \<Rightarrow> settings \<Rightarrow> device \<Rightarrow> device" where
  "checkForFirmwareUpdate e cfg d =
     (if \<not> ce_wifi e \<or> firmwareUrl cfg = [] then d
      else if \<not> ce_client e then d
      else if ce_begin e then
        (if ce_httpCode e = HTTP_CODE_OK then
           (let newETag = ce_etag e
            in if newETag \<noteq> [] then
                 (if currentFirmwareETag cfg = [] \<or> currentFirmwareETag cfg \<noteq> newETag
                  then d\<lparr> pendingOTA_ETag := newETag \<rparr> else d)
               else d)
         else d)
      else d)"

text \<open>\<open>checkForFirmwareUpdate\<close> of the earlier revision \<open>hu-061.ino\<close>, which has no
  pending request: it stores the identifier in the global or calls \<open>startOTAUpdate\<close>
  at once. The second component tells whether that call is made.\<close>

definition checkForFirmwareUpdate_hu061 :: "check_env \<Rightarrow> settings \<Rightarrow> settings \<times> bool" where
  "checkForFirmwareUpdate_hu061 e cfg =
     (if \<not> ce_wifi e \<or> firmwareUrl cfg = [] then (cfg, False)
      else if ce_begin e then
        (if ce_httpCode e = HTTP_CODE_OK then
           (let newETag = ce_etag e
            in if newETag \<noteq> [] then
                 (if currentFirmwareETag cfg = [] then (cfg\<lparr> currentFirmwareETag := newETag \<rparr>, False)
                  else if currentFirmwareETag cfg \<noteq> newETag then (cfg, True)
                  else (cfg, False))
               else (cfg, False))
         else (cfg, False))
      else (cfg, False))"

subsection \<open>The download\<close>

text \<open>
  Every path of \<open>startOTAUpdate\<close> ends in \<open>ESP.restart()\<close>; what survives is the
  persistent store, returned with the path taken. The environment gives the answers of
  the Wi-Fi, HTTP and \<open>Update\<close> calls; \<open>oe_update_end\<close> is the answer of
  \<open>Update.end\<close> to its argument. One \<open>chunk\<close> is one pass of the streaming loop: the
  value of the loop condition, the size \<open>stream->available()\<close> answers, the count
  \<open>readBytes\<close> returns, whether \<open>Update.write\<close> took all of it, and the reading of
  \<open>millis()\<close> in that pass.
\<close>

datatype ota_result =
  WiFiFailed | NoUrl | OutOfMemory | HttpError int | BeginFailed | UpdateTimeout
  | Incomplete int | UpdateFailed | UpdateSuccess int

record attempt =
  at_client :: bool
  at_begin :: bool
  at_code :: int

record chunk =
  ck_running :: bool
  ck_size :: nat
  ck_read :: nat
  ck_write_ok :: bool
  ck_now :: "32 word"

record ota_env =
  oe_wifi :: bool
  oe_wifi_joined :: bool
  oe_attempt :: "nat \<Rightarrow> attempt"
  oe_size :: int
  oe_update_begin :: bool
  oe_t0 :: "32 word"
  oe_chunks :: "chunk list"
  oe_update_end :: "bool \<Rightarrow> bool"

text \<open>The retry loop over the attempts still to make; \<open>httpCode\<close> keeps the answer of the
  last \<open>GET\<close> made.\<close>

fun try_connect :: "(nat \<Rightarrow> attempt) \<Rightarrow> nat list \<Rightarrow> int \<Rightarrow> ota_result + int" where
  "try_connect att [] httpCode = Inr httpCode"
| "try_connect att (n # ns) httpCode =
     (if \<not> at_client (att n) then Inl OutOfMemory
      else if at_begin (att n) then
        (if at_code (att n) = HTTP_CODE_OK then Inr (at_code (att n))
         else try_connect att ns (at_code (att n)))
      else try_connect att ns httpCode)"

text \<open>
  The streaming loop leaves with the count of received bytes (and whether a write error
  broke it) or through the stall timeout. The loop runs as long as the peer keeps the
  connection open or data waiting; a script of passes that ends before the loop does
  gives \<open>None\<close>.
\<close>

datatype stream_exit = Done int bool | Stalled

fun ota_stream :: "int \<Rightarrow> chunk list \<Rightarrow> int \<Rightarrow> 32 word \<Rightarrow> stream_exit option" where
  "ota_stream contentLength [] received lastDataTime = None"
| "ota_stream contentLength (k # ks) received lastDataTime =
     (if \<not> ck_running k then Some (Done received False)
      else if ck_size k \<noteq> 0 then
        (if \<not> ck_write_ok k then Some (Done received True)
         else if contentLength > 0 \<and> received + int (ck_read k) \<ge> contentLength
         then Some (Done (received + int (ck_read k)) False)
         else ota_stream contentLength ks (received + int (ck_read k)) (ck_now k))
      else if ck_now k - lastDataTime > 10000 then Some Stalled
      else if contentLength > 0 \<and> received \<ge> contentLength then Some (Done received False)
      else ota_stream contentLength ks received lastDataTime)"

text \<open>The identifier is stored as a length byte, at most 90, and that many bytes.\<close>

definition store_etag :: "eeprom \<Rightarrow> byte list \<Rightarrow> eeprom" where
  "store_etag m targetETag =
     (let len = (if length targetETag > 90 then 90 else length targetETag)
      in fold (\<lambda>i m'. EEPROM_write m' (ADDR_ETAG + 1 + i) (targetETag ! i)) [0..<len]
           (EEPROM_write m ADDR_ETAG (of_nat len)))"

definition startOTAUpdate ::
  "ota_env \<Rightarrow> byte list \<Rightarrow> settings \<Rightarrow> eeprom \<Rightarrow> (eeprom \<times> ota_result) option" where
  "startOTAUpdate e targetETag cfg m =
     (if \<not> oe_wifi e \<and> \<not> oe_wifi_joined e then Some (m, WiFiFailed)
      else if firmwareUrl cfg = [] then Some (m, NoUrl)
      else
        (case try_connect (oe_attempt e) [0, 1, 2] (- 1) of
           Inl r \<Rightarrow> Some (m, r)
         | Inr httpCode \<Rightarrow>
             if httpCode \<noteq> HTTP_CODE_OK then Some (m, HttpError httpCode)
             else if \<not> oe_update_begin e then Some (m, BeginFailed)
             else
               (case ota_stream (oe_size e) (oe_chunks e) 0 (oe_t0 e) of
                  None \<Rightarrow> None
                | Some Stalled \<Rightarrow> Some (m, UpdateTimeout)
                | Some (Done received write_error) \<Rightarrow>
                    if oe_size e > 0 \<and> received \<noteq> oe_size e then Some (m, Incomplete received)
                    else if oe_update_end e (oe_size e = - 1) then
                      Some (if targetETag \<noteq> [] then store_etag m targetETag else m,
                            UpdateSuccess received)
                    else Some (m, UpdateFailed))))"

section \<open>One pass of \<open>loop\<close>\<close>

text \<open>
  The parts of \<open>loop\<close> that touch the globals above, in the order of the source: the
  button block, the early return in every mode but the normal one, the update check
  every ten minutes, the hand-over of a pending update, the screen rotation and the two
  task handlers.
\<close>

record loop_env =
  le_low :: bool
  le_b1 :: "32 word"
  le_b2 :: "32 word"
  le_now :: "32 word"
  le_check :: check_env
  le_t :: "32 word"
  le_weather :: weather_env
  le_forecast :: forecast_env

definition loop_body :: "loop_env \<Rightarrow> settings \<Rightarrow> device \<Rightarrow> device flow" where
  "loop_body e cfg d =
     (case button_block (le_low e) (le_b1 e) (le_b2 e) d of
        Continue d1 \<Rightarrow>
          if systemMode d1 = 1 \<or> systemMode d1 = 2 \<or> systemMode d1 = 3 \<or> systemMode d1 = 4
          then Continue d1
          else
            (let d2 = (if le_now e - lastOTACheck d1 > 600000
                       then (checkForFirmwareUpdate (le_check e) cfg d1)\<lparr> lastOTACheck := le_now e \<rparr>
                       else d1)
             in if pendingOTA_ETag d2 \<noteq> [] then StartOTA d2
                else Continue (fst (handleForecastTask (le_forecast e)
                                 (fst (handleWeatherTask (le_weather e)
                                    (switch_screen (le_now e) (le_t e) d2))))))
      | other \<Rightarrow> other)"

text \<open>
  The points of the loop at which the task states can be observed are reached by the
  single steps below, taken in any order; a pass of \<open>loop\<close> is a particular sequence of
  them. A step that leaves the loop keeps the globals.
\<close>

datatype loop_step =
  ButtonStep bool "32 word" "32 word" | CheckStep check_env settings "32 word"
  | SwitchStep "32 word" "32 word" | WeatherStep weather_env | ForecastStep forecast_env

fun step :: "loop_step \<Rightarrow> device \<Rightarrow> device" where
  "step (ButtonStep low t1 t2) d = (case button_block low t1 t2 d of Continue d' \<Rightarrow> d' | other \<Rightarrow> d)"
| "step (CheckStep e cfg now) d = (checkForFirmwareUpdate e cfg d)\<lparr> lastOTACheck := now \<rparr>"
| "step (SwitchStep now t) d = switch_screen now t d"
| "step (WeatherStep e) d = fst (handleWeatherTask e d)"
| "step (ForecastStep e) d = fst (handleForecastTask e d)"

fun run_steps :: "loop_step list \<Rightarrow> device \<Rightarrow> device" where
  "run_steps [] d = d"
| "run_steps (x # xs) d = run_steps xs (step x d)"

text \<open>\<open>setup\<close> ends by putting both tasks in their idle state.\<close>

definition after_setup :: "device \<Rightarrow> bool" where
  "after_setup d \<longleftrightarrow> weatherTaskState d = W_IDLE \<and> forecastTaskState d = F_IDLE"

section \<open>Properties and example inputs\<close>

text \<open>At most one of the two tasks is outside its idle state.\<close>

definition tasks_exclusive :: "device \<Rightarrow> bool" where
  "tasks_exclusive d \<longleftrightarrow> weatherTaskState d = W_IDLE \<or> forecastTaskState d = F_IDLE"

text \<open>The globals with the values their declarations give them, the first update check
  due 30 s after a boot at time 0.\<close>

definition example_device :: device where
  "example_device =
     \<lparr> weatherTemp = ''N/A'', weatherCond = [], weatherHum = [], weatherWind = [],
       weatherPress = [], weatherValid = False, lastWeatherFetch = 0,
       weatherTaskState = W_IDLE, weatherTaskTimer = 0, weatherResponseBuffer = [],
       forecasts = [[], [], []], forecastValid = False, lastForecastFetch = 0,
       forecastTaskState = F_IDLE, lastForecastError = ''Wait...'', currentScreen = 0,
       lastScreenSwitch = 0, systemMode = 0, sleepSelectedYes = False, btnPressStart = 0,
       btnActionTaken = False, pendingOTA_ETag = [], lastOTACheck = 30000 - 600000 \<rparr>"

text \<open>A weather call at time \<open>t\<close> with Wi-Fi up, a connection that succeeds and a peer
  that has sent everything and closed.\<close>

definition weather_env_at :: "32 word \<Rightarrow> weather_env" where
  "weather_env_at t =
     \<lparr> we_wifi = True, we_connect = True, we_available = False, we_connected = False,
       we_incoming = [], we_t1 = t, we_t2 = t, we_t3 = t \<rparr>"




text \<open>The moment a weather fetch completes with a response whose condition field is
  empty, over a snapshot from an earlier fetch.\<close>

definition empty_condition_response :: string where
  "empty_condition_response =
     ''HTTP/1.0 200 OK'' @ header_end @ ''+21||56|11 km/h|1015 hPa''"

definition fetching_device :: device where
  "fetching_device = example_device\<lparr> weatherTemp := ''+20'', weatherCond := ''Sunny'',
     weatherHum := ''60%'', weatherWind := ''2'', weatherPress := ''760'',
     weatherTaskState := W_READ_BODY, weatherTaskTimer := 1000,
     weatherResponseBuffer := empty_condition_response \<rparr>"

text \<open>The weather body of the specification's example.\<close>

definition weather_body :: string where
  "weather_body = ''+21|Partly cloudy|56|11 km/h|1015 hPa''"


text \<open>The button samples of the specification's example: a hold of 2.1 s, its release, a
  press of 30 ms, a press of 100 ms, and a second hold of 2.1 s.\<close>

definition example_samples :: "(bool \<times> 32 word \<times> 32 word) list" where
  "example_samples =
     [(True, 1000, 1000), (True, 3100, 3100), (False, 3200, 3200),
      (True, 4000, 4000), (False, 4030, 4030),
      (True, 5000, 5000), (False, 5100, 5100),
      (True, 6000, 6000), (True, 8100, 8100)]"

text \<open>The controller after boot into normal mode: nothing selected, nothing requested,
  the button up.\<close>

definition boot_controller :: controller where
  "boot_controller = \<lparr> c_mode = Normal, c_selection = False, c_lucky = False, c_press = None \<rparr>"

text \<open>The globals during a hold that began in normal mode: still in normal mode, or on
  the sleep confirmation with "No" selected and the action of this hold taken.\<close>

definition held_once :: "device \<Rightarrow> bool" where
  "held_once d \<longleftrightarrow> systemMode d = 0 \<or>
     (systemMode d = 3 \<and> \<not> sleepSelectedYes d \<and> btnPressStart d \<noteq> 0 \<and> btnActionTaken d)"

text \<open>A check that reaches the server and reads the entity tag \<open>"v2"\<close>.\<close>

definition check_env_v2 :: check_env where
  "check_env_v2 = \<lparr> ce_wifi = True, ce_client = True, ce_begin = True,
     ce_httpCode = 200, ce_etag = [0x76, 0x32] \<rparr>"

text \<open>Settings with a firmware URL and no stored identifier.\<close>

definition first_run_settings :: settings where
  "first_run_settings = initial_settings\<lparr> wifiSSID := [0x61], firmwareUrl := [0x68] \<rparr>"

text \<open>A download whose response declares no length (\<open>getSize()\<close> is \<open>-1\<close>): one pass
  delivers four bytes, then the peer has closed.\<close>

definition chunked_env :: ota_env where
  "chunked_env =
     \<lparr> oe_wifi = True, oe_wifi_joined = True,
       oe_attempt = (\<lambda>n. \<lparr> at_client = True, at_begin = True, at_code = 200 \<rparr>),
       oe_size = - 1, oe_update_begin = True, oe_t0 = 0,
       oe_chunks = [\<lparr> ck_running = True, ck_size = 4, ck_read = 4, ck_write_ok = True, ck_now = 10 \<rparr>,
                    \<lparr> ck_running = False, ck_size = 0, ck_read = 0, ck_write_ok = True, ck_now = 20 \<rparr>],
       oe_update_end = (\<lambda>evenIfRemaining. True) \<rparr>"

text \<open>A download that declares eight bytes and delivers them in two passes.\<close>

definition sized_env :: ota_env where
  "sized_env = chunked_env\<lparr> oe_size := 8,
     oe_chunks := [\<lparr> ck_running = True, ck_size = 4, ck_read = 4, ck_write_ok = True, ck_now = 10 \<rparr>,
                   \<lparr> ck_running = True, ck_size = 4, ck_read = 4, ck_write_ok = True, ck_now = 20 \<rparr>] \<rparr>"


text \<open>The check gets as far as reading the headers of a response with status 200.\<close>

definition check_answered :: "check_env \<Rightarrow> settings \<Rightarrow> bool" where
  "check_answered e cfg \<longleftrightarrow>
     ce_wifi e \<and> firmwareUrl cfg \<noteq> [] \<and> ce_begin e \<and> ce_httpCode e = HTTP_CODE_OK"

subsection \<open>The download as the environment tells it\<close>

text \<open>Wi-Fi is up on entry or comes up during the wait of 15 s.\<close>

definition wifi_up :: "ota_env \<Rightarrow> bool" where
  "wifi_up e \<longleftrightarrow> oe_wifi e \<or> oe_wifi_joined e"

text \<open>One of the three attempts is answered with status 200, and a TLS client could be
  allocated for it and for every attempt before it.\<close>

definition http_ok :: "ota_env \<Rightarrow> bool" where
  "http_ok e \<longleftrightarrow>
     (\<exists>n \<in> {0, 1, 2}. (\<forall>j \<in> {..n}. at_client (oe_attempt e j)) \<and>
        at_begin (oe_attempt e n) \<and> at_code (oe_attempt e n) = HTTP_CODE_OK)"

text \<open>
  The passes of the streaming loop, told from the history of the connection rather than
  from the loop's variables: the bytes delivered by the earlier passes are the counts
  read in the passes that found data; the time of the last data is the reading of the
  last such pass, or the reading taken before the loop.
\<close>

definition data_passes :: "chunk list \<Rightarrow> chunk list" where
  "data_passes ks = filter (\<lambda>k. ck_size k \<noteq> 0) ks"

definition delivered :: "chunk list \<Rightarrow> int" where
  "delivered ks = sum_list (map (\<lambda>k. int (ck_read k)) (data_passes ks))"

definition last_data :: "32 word \<Rightarrow> chunk list \<Rightarrow> 32 word" where
  "last_data t0 ks = (if data_passes ks = [] then t0 else ck_now (last (data_passes ks)))"

text \<open>
  How a pass ends the download, if it does, after the passes \<open>past\<close>: the peer has closed
  and nothing waits; a write to flash fails; the declared length is reached; or no byte
  has arrived for more than 10 s. \<open>None\<close>: the download goes on.
\<close>

definition pass_outcome :: "int \<Rightarrow> 32 word \<Rightarrow> chunk list \<Rightarrow> chunk \<Rightarrow> stream_exit option" where
  "pass_outcome declared t0 past k =
     (if \<not> ck_running k then Some (Done (delivered past) False)
      else if ck_size k \<noteq> 0 then
        (if \<not> ck_write_ok k then Some (Done (delivered past) True)
         else if 0 < declared \<and> declared \<le> delivered past + int (ck_read k)
         then Some (Done (delivered past + int (ck_read k)) False)
         else None)
      else if ck_now k - last_data t0 past > 10000 then Some Stalled
      else if 0 < declared \<and> declared \<le> delivered past then Some (Done (delivered past) False)
      else None)"

text \<open>The download ends at pass \<open>j\<close> with exit \<open>x\<close>: no earlier pass ends it.\<close>

definition stream_ends_at :: "int \<Rightarrow> 32 word \<Rightarrow> chunk list \<Rightarrow> nat \<Rightarrow> stream_exit \<Rightarrow> bool" where
  "stream_ends_at declared t0 ks j x \<longleftrightarrow>
     j < length ks \<and> (\<forall>i < j. pass_outcome declared t0 (take i ks) (ks ! i) = None) \<and>
     pass_outcome declared t0 (take j ks) (ks ! j) = Some x"



text \<open>Wi-Fi down and not coming back, and a connection that would stall.\<close>

definition offline_env :: ota_env where
  "offline_env = chunked_env\<lparr> oe_wifi := False, oe_wifi_joined := False,
     oe_chunks := [\<lparr> ck_running = True, ck_size = 0, ck_read = 0, ck_write_ok = True,
                      ck_now = 20000 \<rparr>] \<rparr>"

section \<open>Results on the configuration store\<close>

lemma signature_absent_erased: "\<not> signature_present erased_eeprom"
  by (simp add: signature_present_def erased_eeprom_def EEPROM_read_def addr_defs)

lemma load_field_erased: "load_field erased_eeprom addr cap bnd = Inr []"
  by (simp add: load_field_def erased_eeprom_def EEPROM_read_def)

lemma load_tz_erased: "load_tz erased_eeprom = - 1"
  by (simp add: load_tz_def erased_eeprom_def EEPROM_read_def addr_defs)

text \<open>
  C6, as stated, fails on \<open>loadSettings\<close>: on erased storage the four bytes of the
  timezone offset are \<open>0xFF\<close> each, and the function, which never looks at the signature,
  assembles the offset \<open>-1\<close> from them.
\<close>

theorem loadSettings_erased_counterexample:
  "loadSettings erased_eeprom = Inr (initial_settings\<lparr> timezoneOffset := - 1 \<rparr>) \<and>
   sint (- 1 :: 32 word) = - 1 \<and> \<not> signature_present erased_eeprom"
  by (simp add: loadSettings_def load_field_erased load_tz_erased bind_f_def trim_b_def
      initial_settings_def signature_absent_erased)

text \<open>
  C6 (amended): the empty configuration for a missing or invalid record comes from the
  boot sequence, not from \<open>loadSettings\<close>. Whenever the four signature bytes are not
  \<open>CFG1\<close>, \<open>setup\<close> skips \<open>loadSettings\<close>: it cannot fail, every string global keeps its
  initial empty value and the timezone offset stays 0, and the device enters the
  configuration portal, whatever the button does.
\<close>

theorem setup_config_without_signature:
  "\<not> signature_present m \<Longrightarrow> setup_config m buttonPressed = Inr (1, initial_settings)"
  by (simp add: setup_config_def)

theorem setup_config_without_signature_witness:
  "\<not> signature_present erased_eeprom \<and>
   setup_config erased_eeprom False = Inr (1, initial_settings) \<and>
   timezoneOffset initial_settings = 0 \<and> wifiSSID initial_settings = []"
  using setup_config_without_signature [of erased_eeprom False]
  by (simp add: signature_absent_erased initial_settings_def)

text \<open>
  C10 fails on the code: a stored SSID length of 200 passes the test \<open>0 < len < 0xFF\<close>,
  the copy loop of the SSID block has no bound but \<open>len\<close>, and its store at index 80
  leaves the 80-byte buffer.
\<close>

theorem loadSettings_ssid_overflow:
  "loadSettings (erased_eeprom(ADDR_SSID := 200)) = Inl (OutOfBounds 80 80)"
  unfolding loadSettings_def load_field_def erased_eeprom_def ADDR_SSID_def
  by code_simp

text \<open>
  C5 fails on the code: \<open>saveSettings\<close> does not clamp the city, so the 70th byte of a
  70-byte city lands on address 210, the first byte of the timezone offset, which is
  written afterwards. \<open>loadSettings\<close> then returns a city whose last byte is the low byte
  of the offset (\<open>0x70\<close>), neither the original byte (\<open>0x61\<close>) nor a truncation of the
  original.
\<close>

theorem save_load_city_clobbered:
  "map_sum id city (loadSettings (saveSettings long_city_settings erased_eeprom))
     = Inr (replicate 69 0x61 @ [0x70]) \<and>
   city long_city_settings = replicate 70 0x61"
  unfolding long_city_settings_def erased_eeprom_def initial_settings_def
  by code_simp

subsection \<open>The round trip that does hold\<close>

text \<open>
  For a configuration that fits the store, \<open>loadSettings\<close> after \<open>saveSettings\<close> reads
  every string field and the timezone offset back unchanged. The entity tag is not
  written by \<open>saveSettings\<close>; it is whatever the store held.
\<close>

lemma EEPROM_read_write:
  "EEPROM_read (EEPROM_write m a v) b = (if a = b \<and> a < EEPROM_SIZE then v else EEPROM_read m b)"
  by (simp add: EEPROM_read_def EEPROM_write_def)

lemma tz_bytes:
  fixes tz :: "32 word"
  shows "((ucast (ucast (tz AND mask 8) :: 8 word) :: 32 word) AND mask 8)
     OR push_bit 8 ((ucast (ucast (signed_drop_bit 8 tz AND mask 8) :: 8 word) :: 32 word) AND mask 8)
     OR push_bit 16 ((ucast (ucast (signed_drop_bit 16 tz AND mask 8) :: 8 word) :: 32 word) AND mask 8)
     OR push_bit 24 ((ucast (ucast (signed_drop_bit 24 tz AND mask 8) :: 8 word) :: 32 word) AND mask 8) = tz"
proof (rule bit_word_eqI)
  fix n :: nat
  assume "n < LENGTH(32)"
  then have "n < 32" by simp
  then consider "n < 8" | "8 \<le> n" "n < 16" | "16 \<le> n" "n < 24" | "24 \<le> n" "n < 32"
    by linarith
  then show "bit (((ucast (ucast (tz AND mask 8) :: 8 word) :: 32 word) AND mask 8)
     OR push_bit 8 ((ucast (ucast (signed_drop_bit 8 tz AND mask 8) :: 8 word) :: 32 word) AND mask 8)
     OR push_bit 16 ((ucast (ucast (signed_drop_bit 16 tz AND mask 8) :: 8 word) :: 32 word) AND mask 8)
     OR push_bit 24 ((ucast (ucast (signed_drop_bit 24 tz AND mask 8) :: 8 word) :: 32 word) AND mask 8)) n
     = bit tz n"
    by cases (auto simp: bit_simps)
qed

lemma tz_bytes_255:
  fixes tz :: "32 word"
  shows "((ucast (ucast (tz AND 0xFF) :: 8 word) :: 32 word) AND 0xFF)
     OR push_bit 8 ((ucast (ucast (signed_drop_bit 8 tz AND 0xFF) :: 8 word) :: 32 word) AND 0xFF)
     OR push_bit 16 ((ucast (ucast (signed_drop_bit 16 tz AND 0xFF) :: 8 word) :: 32 word) AND 0xFF)
     OR push_bit 24 ((ucast (ucast (signed_drop_bit 24 tz AND 0xFF) :: 8 word) :: 32 word) AND 0xFF) = tz"
proof -
  have m: "(0xFF :: 32 word) = mask 8" by (simp add: mask_eq_exp_minus_1)
  show ?thesis unfolding m by (rule tz_bytes)
qed

lemma load_save_tz: "load_tz (save_tz m tz) = tz"
proof -
  have r0: "EEPROM_read (save_tz m tz) ADDR_TZ = ucast (tz AND 0xFF)"
    and r1: "EEPROM_read (save_tz m tz) (ADDR_TZ + 1) = ucast (signed_drop_bit 8 tz AND 0xFF)"
    and r2: "EEPROM_read (save_tz m tz) (ADDR_TZ + 2) = ucast (signed_drop_bit 16 tz AND 0xFF)"
    and r3: "EEPROM_read (save_tz m tz) (ADDR_TZ + 3) = ucast (signed_drop_bit 24 tz AND 0xFF)"
    by (simp_all add: save_tz_def Let_def EEPROM_read_def EEPROM_write_def addr_defs)
  show ?thesis
    unfolding load_tz_def Let_def r0 r1 r2 r3 by (rule tz_bytes_255)
qed


lemma fold_write_read:
  "EEPROM_read (fold (\<lambda>i m'. EEPROM_write m' (addr + 1 + i) (s ! i)) [0..<n] m0) a =
     (if addr + 1 \<le> a \<and> a < addr + 1 + n \<and> a < EEPROM_SIZE then s ! (a - addr - 1)
      else EEPROM_read m0 a)"
proof (induction n)
  case 0
  show ?case by auto
next
  case (Suc n)
  then show ?case by (auto simp: EEPROM_read_write)
qed

lemma fold_write_read_Suc:
  "EEPROM_read (fold (\<lambda>i m'. EEPROM_write m' (Suc (addr + i)) (s ! i)) [0..<n] m0) a =
     (if addr < a \<and> a \<le> addr + n \<and> a < EEPROM_SIZE then s ! (a - Suc addr)
      else EEPROM_read m0 a)"
  using fold_write_read [of addr s n m0 a] by (auto simp: less_Suc_eq_le Suc_le_eq)

lemma String_of_buf_stored:
  "0 \<notin> set s \<Longrightarrow> String_of_buf (map Some s @ Some 0 # rest) = Inr s"
  by (induction s) (auto simp: bind_f_def)

lemma copy_loop_upt:
  "n \<le> length b \<Longrightarrow> k \<le> n \<Longrightarrow>
     copy_loop m addr [k..<n] b
       = Inr (take k b @ map (\<lambda>i. Some (EEPROM_read m (addr + 1 + i))) [k..<n] @ drop n b)"
proof (induction "n - k" arbitrary: k b)
  case 0
  then show ?case by simp
next
  case (Suc d)
  then have kn: "k < n" by simp
  then have u: "[k..<n] = k # [Suc k..<n]" by (simp add: upt_rec)
  have len: "n \<le> length (b[k := Some (EEPROM_read m (addr + 1 + k))])" using Suc by simp
  have d: "d = n - Suc k" using Suc by simp
  have "copy_loop m addr [Suc k..<n] (b[k := Some (EEPROM_read m (addr + 1 + k))])
      = Inr (take (Suc k) (b[k := Some (EEPROM_read m (addr + 1 + k))])
          @ map (\<lambda>i. Some (EEPROM_read m (addr + 1 + i))) [Suc k..<n]
          @ drop n (b[k := Some (EEPROM_read m (addr + 1 + k))]))"
    using Suc.hyps(1) [OF d len] kn by simp
  moreover have "take (Suc k) (b[k := Some (EEPROM_read m (addr + 1 + k))])
      = take k b @ [Some (EEPROM_read m (addr + 1 + k))]"
    using kn Suc.prems by (simp add: take_Suc_conv_app_nth)
  moreover have "drop n (b[k := Some (EEPROM_read m (addr + 1 + k))]) = drop n b"
    using kn by simp
  ultimately show ?case
    using kn Suc.prems by (simp add: u buf_store_def bind_f_def)
qed

lemma load_field_stored:
  assumes len: "EEPROM_read m addr = of_nat (length s)"
    and dat: "\<forall>i<length s. EEPROM_read m (addr + 1 + i) = s ! i"
    and cap: "length s < cap" "cap \<le> 255"
    and bnd: "case bnd of None \<Rightarrow> True | Some l \<Rightarrow> length s \<le> l"
    and nz: "0 \<notin> set s"
  shows "load_field m addr cap bnd = Inr s"
proof (cases "s = []")
  case True
  with len show ?thesis by (simp add: load_field_def)
next
  case False
  have u: "unat (of_nat (length s) :: byte) = length s"
    using cap by (simp add: unat_of_nat)
  have n: "(case bnd of None \<Rightarrow> length s | Some l \<Rightarrow> min (length s) l) = length s"
    using bnd by (cases bnd) auto
  have mp: "map (\<lambda>i. Some (EEPROM_read m (addr + 1 + i))) [0..<length s] = map Some s"
    using dat by (auto intro: nth_equalityI)
  obtain k where k: "cap - length s = Suc k"
    using cap by (metis Suc_diff_Suc)
  have c0: "copy_loop m addr [0..<length s] (new_buf cap)
             = Inr (take 0 (new_buf cap)
                 @ map (\<lambda>i. Some (EEPROM_read m (addr + 1 + i))) [0..<length s]
                 @ drop (length s) (new_buf cap))"
    using cap by (intro copy_loop_upt) (simp_all add: new_buf_def)
  have dr: "drop (length s) (new_buf cap) = None # replicate k None"
    using k by (simp add: new_buf_def)
  have c: "copy_loop m addr [0..<length s] (new_buf cap)
             = Inr (map Some s @ None # replicate k None)"
    unfolding c0 mp dr by simp
  have st: "buf_store (map Some s @ None # replicate k None) (length s) 0
             = Inr (map Some s @ Some 0 # replicate k None)"
    by (simp add: buf_store_def list_update_append)
  show ?thesis
    using False cap nz
    by (simp add: load_field_def Let_def len u n c st bind_f_def String_of_buf_stored)
qed

lemma save_field_read:
  assumes "length s < 256" "case bnd of None \<Rightarrow> True | Some l \<Rightarrow> length s \<le> l"
    "addr + length s < EEPROM_SIZE"
  shows "EEPROM_read (save_field m addr bnd s) a =
     (if a = addr then of_nat (length s)
      else if addr < a \<and> a \<le> addr + length s then s ! (a - addr - 1)
      else EEPROM_read m a)"
proof -
  have l0: "length s mod 256 = length s" using assms(1) by simp
  have n: "(case bnd of None \<Rightarrow> length s | Some l \<Rightarrow> if length s > l then l else length s) = length s"
    using assms(2) by (cases bnd) auto
  have sf: "save_field m addr bnd s =
      (if length s > 0
       then fold (\<lambda>i m'. EEPROM_write m' (addr + 1 + i) (s ! i)) [0..<length s]
              (EEPROM_write m addr (of_nat (length s)))
       else EEPROM_write m addr 0)"
    unfolding save_field_def Let_def l0 n by (rule refl)
  show ?thesis
    unfolding sf using assms(3)
    by (auto simp: fold_write_read_Suc EEPROM_read_write)
qed

lemmas save_simps = saveSettings_def Let_def save_signature_def save_tz_def EEPROM_read_write
  save_field_read addr_defs

lemma load_saved_wifiSSID:
  assumes "fits cfg"
  shows "load_field (saveSettings cfg m) ADDR_SSID 80 None = Inr (wifiSSID cfg)"
proof (rule load_field_stored)
  show "EEPROM_read (saveSettings cfg m) ADDR_SSID = of_nat (length (wifiSSID cfg))"
    using assms by (simp add: fits_def save_simps)
  show "\<forall>i<length (wifiSSID cfg). EEPROM_read (saveSettings cfg m) (ADDR_SSID + 1 + i) = wifiSSID cfg ! i"
    using assms by (simp add: fits_def save_simps)
qed (use assms in \<open>simp_all add: fits_def\<close>)

lemma load_saved_wifiPass:
  assumes "fits cfg"
  shows "load_field (saveSettings cfg m) ADDR_PASS 80 None = Inr (wifiPass cfg)"
proof (rule load_field_stored)
  show "EEPROM_read (saveSettings cfg m) ADDR_PASS = of_nat (length (wifiPass cfg))"
    using assms by (simp add: fits_def save_simps)
  show "\<forall>i<length (wifiPass cfg). EEPROM_read (saveSettings cfg m) (ADDR_PASS + 1 + i) = wifiPass cfg ! i"
    using assms by (simp add: fits_def save_simps)
qed (use assms in \<open>simp_all add: fits_def\<close>)

lemma load_saved_city:
  assumes "fits cfg"
  shows "load_field (saveSettings cfg m) ADDR_CITY 80 None = Inr (city cfg)"
proof (rule load_field_stored)
  show "EEPROM_read (saveSettings cfg m) ADDR_CITY = of_nat (length (city cfg))"
    using assms by (simp add: fits_def save_simps)
  show "\<forall>i<length (city cfg). EEPROM_read (saveSettings cfg m) (ADDR_CITY + 1 + i) = city cfg ! i"
    using assms by (simp add: fits_def save_simps)
qed (use assms in \<open>simp_all add: fits_def\<close>)

lemma load_saved_greetingUrl:
  assumes "fits cfg"
  shows "load_field (saveSettings cfg m) ADDR_GREETING 150 (Some 149) = Inr (greetingUrl cfg)"
proof (rule load_field_stored)
  show "EEPROM_read (saveSettings cfg m) ADDR_GREETING = of_nat (length (greetingUrl cfg))"
    using assms by (simp add: fits_def save_simps)
  show "\<forall>i<length (greetingUrl cfg). EEPROM_read (saveSettings cfg m) (ADDR_GREETING + 1 + i) = greetingUrl cfg ! i"
    using assms by (simp add: fits_def save_simps)
qed (use assms in \<open>simp_all add: fits_def\<close>)

lemma load_saved_firmwareUrl:
  assumes "fits cfg"
  shows "load_field (saveSettings cfg m) ADDR_FIRMWARE_URL 150 (Some 149) = Inr (firmwareUrl cfg)"
proof (rule load_field_stored)
  show "EEPROM_read (saveSettings cfg m) ADDR_FIRMWARE_URL = of_nat (length (firmwareUrl cfg))"
    using assms by (simp add: fits_def save_simps)
  show "\<forall>i<length (firmwareUrl cfg). EEPROM_read (saveSettings cfg m) (ADDR_FIRMWARE_URL + 1 + i) = firmwareUrl cfg ! i"
    using assms by (simp add: fits_def save_simps)
qed (use assms in \<open>simp_all add: fits_def\<close>)

lemma load_saved_luckyImageUrl:
  assumes "fits cfg"
  shows "load_field (saveSettings cfg m) ADDR_LUCKY_URL 200 (Some 199) = Inr (luckyImageUrl cfg)"
proof (rule load_field_stored)
  show "EEPROM_read (saveSettings cfg m) ADDR_LUCKY_URL = of_nat (length (luckyImageUrl cfg))"
    using assms by (simp add: fits_def save_simps)
  show "\<forall>i<length (luckyImageUrl cfg). EEPROM_read (saveSettings cfg m) (ADDR_LUCKY_URL + 1 + i) = luckyImageUrl cfg ! i"
    using assms by (simp add: fits_def save_simps)
qed (use assms in \<open>simp_all add: fits_def\<close>)

lemma load_saved_tz: "load_tz (saveSettings cfg m) = timezoneOffset cfg"
proof -
  have "load_tz (saveSettings cfg m) = load_tz (save_tz m (timezoneOffset cfg))"
    by (simp add: load_tz_def saveSettings_def Let_def save_signature_def save_tz_def
        EEPROM_read_write addr_defs)
  then show ?thesis by (simp add: load_save_tz)
qed


lemma save_load_roundtrip:
  assumes "fits cfg"
    and "load_field (saveSettings cfg m) ADDR_ETAG 100 (Some 99) = Inr etag"
  shows "loadSettings (saveSettings cfg m) = Inr (cfg\<lparr> currentFirmwareETag := trim_b etag \<rparr>)"
  using assms
  by (simp add: loadSettings_def bind_f_def load_saved_wifiSSID load_saved_wifiPass
      load_saved_city load_saved_greetingUrl load_saved_firmwareUrl load_saved_luckyImageUrl
      load_saved_tz)

section \<open>Results on the network task engine\<close>

subsection \<open>What each step does to the two task states\<close>

lemma button_block_tasks:
  "button_block low t1 t2 d = Continue d' \<Longrightarrow>
     weatherTaskState d' = weatherTaskState d \<and> forecastTaskState d' = forecastTaskState d"
  by (auto simp: button_block_def Let_def split: if_splits)

lemma parseWeatherData_tasks:
  "weatherTaskState (parseWeatherData r d) = weatherTaskState d"
  "forecastTaskState (parseWeatherData r d) = forecastTaskState d"
  by (simp_all add: parseWeatherData_def split: option.splits)

lemma parseForecastData_tasks:
  "weatherTaskState (parseForecastData e d) = weatherTaskState d"
  "forecastTaskState (parseForecastData e d) = forecastTaskState d"
  by (simp_all add: parseForecastData_def Let_def split: forecast_parse.splits)

lemma checkForFirmwareUpdate_tasks:
  "weatherTaskState (checkForFirmwareUpdate e cfg d) = weatherTaskState d"
  "forecastTaskState (checkForFirmwareUpdate e cfg d) = forecastTaskState d"
  by (simp_all add: checkForFirmwareUpdate_def Let_def)

lemma handleWeatherTask_forecast:
  "forecastTaskState (fst (handleWeatherTask e d)) = forecastTaskState d"
  by (simp add: handleWeatherTask_def Let_def parseWeatherData_tasks split: WeatherTaskState.splits)

lemma handleForecastTask_weather:
  "weatherTaskState (fst (handleForecastTask e d)) = weatherTaskState d"
  by (simp add: handleForecastTask_def Let_def parseForecastData_tasks split: ForecastTaskState.splits)

lemma handleWeatherTask_leaves_idle:
  "weatherTaskState d = W_IDLE \<Longrightarrow> weatherTaskState (fst (handleWeatherTask e d)) \<noteq> W_IDLE \<Longrightarrow>
     forecastTaskState d = F_IDLE"
  by (auto simp: handleWeatherTask_def split: if_splits)

lemma handleForecastTask_leaves_idle:
  "forecastTaskState d = F_IDLE \<Longrightarrow> forecastTaskState (fst (handleForecastTask e d)) \<noteq> F_IDLE \<Longrightarrow>
     weatherTaskState d = W_IDLE"
  by (auto simp: handleForecastTask_def split: if_splits)

lemma switch_screen_weather: "weatherTaskState (switch_screen now t d) = weatherTaskState d"
  by (simp add: switch_screen_def Let_def)

lemma switch_screen_leaves_idle:
  "forecastTaskState (switch_screen now t d) \<noteq> forecastTaskState d \<Longrightarrow>
     weatherTaskState d = W_IDLE \<and> forecastTaskState d = F_IDLE"
  by (auto simp: switch_screen_def Let_def split: if_splits)

lemma step_weather_leaves_idle:
  "weatherTaskState d = W_IDLE \<Longrightarrow> weatherTaskState (step x d) \<noteq> W_IDLE \<Longrightarrow>
     forecastTaskState d = F_IDLE \<and> forecastTaskState (step x d) = F_IDLE"
proof (cases x)
  case (ButtonStep low t1 t2)
  assume a: "weatherTaskState d = W_IDLE" "weatherTaskState (step x d) \<noteq> W_IDLE"
  show ?thesis
  proof (cases "button_block low t1 t2 d")
    case (Continue d')
    with a ButtonStep button_block_tasks [OF Continue] show ?thesis by simp
  qed (use a ButtonStep in simp_all)
next
  case (CheckStep e cfg now)
  assume "weatherTaskState d = W_IDLE" "weatherTaskState (step x d) \<noteq> W_IDLE"
  with CheckStep show ?thesis by (simp add: checkForFirmwareUpdate_tasks)
next
  case (SwitchStep now t)
  assume "weatherTaskState d = W_IDLE" "weatherTaskState (step x d) \<noteq> W_IDLE"
  with SwitchStep show ?thesis by (simp add: switch_screen_weather)
next
  case (WeatherStep e)
  assume "weatherTaskState d = W_IDLE" "weatherTaskState (step x d) \<noteq> W_IDLE"
  with WeatherStep show ?thesis
    using handleWeatherTask_leaves_idle [of d e] by (simp add: handleWeatherTask_forecast)
next
  case (ForecastStep e)
  assume "weatherTaskState d = W_IDLE" "weatherTaskState (step x d) \<noteq> W_IDLE"
  with ForecastStep show ?thesis by (simp add: handleForecastTask_weather)
qed

lemma step_forecast_leaves_idle:
  "forecastTaskState d = F_IDLE \<Longrightarrow> forecastTaskState (step x d) \<noteq> F_IDLE \<Longrightarrow>
     weatherTaskState d = W_IDLE \<and> weatherTaskState (step x d) = W_IDLE"
proof (cases x)
  case (ButtonStep low t1 t2)
  assume a: "forecastTaskState d = F_IDLE" "forecastTaskState (step x d) \<noteq> F_IDLE"
  show ?thesis
  proof (cases "button_block low t1 t2 d")
    case (Continue d')
    with a ButtonStep button_block_tasks [OF Continue] show ?thesis by simp
  qed (use a ButtonStep in simp_all)
next
  case (CheckStep e cfg now)
  assume "forecastTaskState d = F_IDLE" "forecastTaskState (step x d) \<noteq> F_IDLE"
  with CheckStep show ?thesis by (simp add: checkForFirmwareUpdate_tasks)
next
  case (SwitchStep now t)
  assume "forecastTaskState d = F_IDLE" "forecastTaskState (step x d) \<noteq> F_IDLE"
  with SwitchStep show ?thesis
    using switch_screen_leaves_idle [of now t d] by (auto simp: switch_screen_weather)
next
  case (WeatherStep e)
  assume "forecastTaskState d = F_IDLE" "forecastTaskState (step x d) \<noteq> F_IDLE"
  with WeatherStep show ?thesis by (simp add: handleWeatherTask_forecast)
next
  case (ForecastStep e)
  assume "forecastTaskState d = F_IDLE" "forecastTaskState (step x d) \<noteq> F_IDLE"
  with ForecastStep show ?thesis
    using handleForecastTask_leaves_idle [of d e] by (simp add: handleForecastTask_weather)
qed

lemma step_exclusive: "tasks_exclusive d \<Longrightarrow> tasks_exclusive (step x d)"
  unfolding tasks_exclusive_def
  using step_weather_leaves_idle [of d x] step_forecast_leaves_idle [of d x] by metis

lemma run_steps_exclusive: "tasks_exclusive d \<Longrightarrow> tasks_exclusive (run_steps xs d)"
  by (induction xs arbitrary: d) (simp_all add: step_exclusive)

text \<open>A pass of \<open>loop\<close> that comes back is one of three sequences of single steps: the
  button block alone (every mode but the normal one), or the button block, the update
  check when it is due, the screen rotation and the two handlers.\<close>

lemma loop_body_is_run:
  assumes "loop_body e cfg d = Continue d'"
  shows "d' = run_steps [ButtonStep (le_low e) (le_b1 e) (le_b2 e)] d \<or>
         d' = run_steps [ButtonStep (le_low e) (le_b1 e) (le_b2 e),
                SwitchStep (le_now e) (le_t e), WeatherStep (le_weather e),
                ForecastStep (le_forecast e)] d \<or>
         d' = run_steps [ButtonStep (le_low e) (le_b1 e) (le_b2 e),
                CheckStep (le_check e) cfg (le_now e),
                SwitchStep (le_now e) (le_t e), WeatherStep (le_weather e),
                ForecastStep (le_forecast e)] d"
  using assms
  by (cases "button_block (le_low e) (le_b1 e) (le_b2 e) d")
     (auto simp: loop_body_def Let_def split: if_splits)

text \<open>
  C2: from the end of \<open>setup\<close>, where both tasks are idle, every point that any sequence
  of steps of the loop reaches has at most one of the two tasks outside its idle state;
  and at every such point a step that takes a task out of idle finds the other task
  idle.
\<close>

theorem network_tasks_mutually_exclusive:
  assumes "after_setup d"
  shows "tasks_exclusive (run_steps xs d) \<and>
         (\<forall>x. (weatherTaskState (run_steps xs d) = W_IDLE \<and>
                 weatherTaskState (step x (run_steps xs d)) \<noteq> W_IDLE
                   \<longrightarrow> forecastTaskState (run_steps xs d) = F_IDLE) \<and>
              (forecastTaskState (run_steps xs d) = F_IDLE \<and>
                 forecastTaskState (step x (run_steps xs d)) \<noteq> F_IDLE
                   \<longrightarrow> weatherTaskState (run_steps xs d) = W_IDLE))"
proof -
  from assms have "tasks_exclusive d" by (simp add: after_setup_def tasks_exclusive_def)
  then have "tasks_exclusive (run_steps xs d)" by (rule run_steps_exclusive)
  then show ?thesis
    using step_weather_leaves_idle step_forecast_leaves_idle by blast
qed

lemma weather_leaves_idle_example:
  "weatherTaskState (step (WeatherStep (weather_env_at 1000000)) example_device) = W_CONNECTING"
  by (simp add: handleWeatherTask_def weather_env_at_def example_device_def)

theorem network_tasks_mutually_exclusive_witness:
  "after_setup example_device \<and>
   weatherTaskState (run_steps [] example_device) = W_IDLE \<and>
   weatherTaskState (step (WeatherStep (weather_env_at 1000000)) (run_steps [] example_device))
     \<noteq> W_IDLE \<and>
   forecastTaskState (run_steps [] example_device) = F_IDLE \<and>
   tasks_exclusive (run_steps [] example_device)"
  using network_tasks_mutually_exclusive [of example_device "[]"] weather_leaves_idle_example
  by (simp add: after_setup_def example_device_def)

subsection \<open>One call of a handler\<close>












subsection \<open>The validity flag of the weather snapshot\<close>

lemma weather_fields_empty_condition:
  "weather_fields empty_condition_response = Some (''+21'', [], ''56%'', ''3'', ''761'')"
  unfolding empty_condition_response_def by code_simp

lemma handleWeatherTask_empty_condition:
  "fst (handleWeatherTask (weather_env_at 1500) fetching_device) =
     fetching_device\<lparr> weatherTemp := ''+21'', weatherCond := [], weatherHum := ''56%'',
       weatherWind := ''3'', weatherPress := ''761'', weatherValid := True,
       lastWeatherFetch := 1500, weatherTaskState := W_IDLE \<rparr>"
  by (simp add: handleWeatherTask_def weather_env_at_def fetching_device_def example_device_def
      parseWeatherData_def weather_fields_empty_condition Let_def)

text \<open>The earlier revision answers \<open>False\<close> on the same body, so its caller leaves
  \<open>weatherValid\<close> false there.\<close>

lemma body_fields_empty_condition:
  "body_fields ''+21||56|11 km/h|1015 hPa'' = Some (''+21'', [], ''56%'', ''3'', ''761'')"
  by code_simp

lemma getWeather_hu061_empty_condition:
  "snd (getWeather_hu061 True True True ''+21||56|11 km/h|1015 hPa'' w) = False"
proof -
  have "trim ''+21||56|11 km/h|1015 hPa'' = ''+21||56|11 km/h|1015 hPa''" by code_simp
  then show ?thesis by (simp add: getWeather_hu061_def body_fields_empty_condition)
qed

text \<open>
  C1 fails on the code: \<open>handleWeatherTask\<close> sets \<open>weatherValid\<close> after every completed
  fetch, whatever \<open>parseWeatherData\<close> found. A response with an empty condition field
  completes with the flag set, the condition of the earlier snapshot (\<open>Sunny\<close>) replaced
  by the empty string and its temperature by the new one.
\<close>

theorem weather_fetch_empty_condition_marked_valid:
  "weatherValid (fst (handleWeatherTask (weather_env_at 1500) fetching_device)) \<and>
   weatherCond (fst (handleWeatherTask (weather_env_at 1500) fetching_device)) = [] \<and>
   weatherTemp (fst (handleWeatherTask (weather_env_at 1500) fetching_device)) = ''+21'' \<and>
   weatherTaskState (fst (handleWeatherTask (weather_env_at 1500) fetching_device)) = W_IDLE \<and>
   \<not> weatherValid fetching_device \<and> weatherCond fetching_device = ''Sunny'' \<and>
   weatherTaskState fetching_device = W_READ_BODY"
  unfolding handleWeatherTask_empty_condition
  by (simp add: fetching_device_def example_device_def)

subsection \<open>The example of the weather format\<close>

lemma weather_fields_example:
  "weather_fields weather_body = Some (''+21'', ''Partly cloudy'', ''56%'', ''3'', ''761'')"
  unfolding weather_body_def by code_simp

text \<open>
  The firmware computes the two conversions in floating point. Any value within a
  hundredth of the exact quotient and product rounds to the same integers, so the
  rounding of single precision does not change the two results.
\<close>

lemma wind_rounding_stable:
  assumes "\<bar>y - 11 / (36 / 10)\<bar> \<le> 1 / 100"
  shows "round_c y = 3"
proof -
  have "11 / (36 / 10) = (55 / 18 :: rat)" by simp
  with assms have "\<bar>y - 55 / 18\<bar> \<le> 1 / 100" by simp
  then have "0 \<le> y" "3 \<le> y + 1 / 2" "y + 1 / 2 < 4" by linarith+
  then show ?thesis by (simp add: round_c_def floor_eq_iff)
qed

lemma pressure_rounding_stable:
  assumes "\<bar>y - 1015 * (75006 / 100000)\<bar> \<le> 1 / 100"
  shows "round_c y = 761"
proof -
  have "1015 * (75006 / 100000) = (7613109 / 10000 :: rat)" by simp
  with assms have "\<bar>y - 7613109 / 10000\<bar> \<le> 1 / 100" by simp
  then have "0 \<le> y" "761 \<le> y + 1 / 2" "y + 1 / 2 < 762" by linarith+
  then show ?thesis by (simp add: round_c_def floor_eq_iff)
qed

text \<open>
  C8: whatever the snapshot held, parsing the body
  \<open>+21|Partly cloudy|56|11 km/h|1015 hPa\<close> leaves temperature \<open>+21\<close>, condition
  \<open>Partly cloudy\<close>, humidity \<open>56%\<close>, wind \<open>3\<close> and pressure \<open>761\<close>.
\<close>

theorem parseWeatherData_example:
  "parseWeatherData weather_body w =
     w\<lparr> weatherTemp := ''+21'', weatherCond := ''Partly cloudy'', weatherHum := ''56%'',
        weatherWind := ''3'', weatherPress := ''761'' \<rparr>"
  by (simp add: parseWeatherData_def weather_fields_example)

section \<open>Results on the mode controller\<close>


subsection \<open>One sample\<close>



text \<open>
  The firmware keeps "no press" as the reading 0 in \<open>btnPressStart\<close>. A press that
  begins at a pass whose clock reading is 0 is therefore not recorded: the globals stay
  as they were, while the controller of the specification has a press in progress. The
  results below are about sequences without such a reading.
\<close>

lemma press_at_reading_0_not_recorded:
  "button_block True 0 0 example_device = Continue example_device \<and>
   c_press (boot_controller\<lparr> c_press := Some (0, False) \<rparr>) \<noteq> c_press boot_controller \<and>
   table_sample (True, 0, 0) boot_controller
     = Continue (boot_controller\<lparr> c_press := Some (0, False) \<rparr>)"
  by (simp add: button_block_def example_device_def table_sample_def boot_controller_def)

subsection \<open>Recorded sequences\<close>




lemma table_run_example_hold:
  "table_run (take 3 example_samples) boot_controller
     = Continue \<lparr> c_mode = SleepConfirm, c_selection = False, c_lucky = False, c_press = None \<rparr>"
  by (simp add: example_samples_def boot_controller_def table_sample_def hold_row_def
      release_row_def action_taken_def released_def)

lemma table_run_example_noise:
  "table_run (take 5 example_samples) boot_controller
     = Continue \<lparr> c_mode = SleepConfirm, c_selection = False, c_lucky = False, c_press = None \<rparr>"
  by (simp add: example_samples_def boot_controller_def table_sample_def hold_row_def
      release_row_def action_taken_def released_def)

lemma table_run_example_click:
  "table_run (take 7 example_samples) boot_controller
     = Continue \<lparr> c_mode = SleepConfirm, c_selection = True, c_lucky = False, c_press = None \<rparr>"
  by (simp add: example_samples_def boot_controller_def table_sample_def hold_row_def
      release_row_def action_taken_def released_def)



subsection \<open>One action per hold\<close>

text \<open>
  However long the button is held and however often the loop samples it, a hold that
  begins in normal mode takes at most one action: the run stays in the loop and ends in
  normal mode or on the sleep confirmation with "No", the action of this hold marked as
  taken.
\<close>

lemma held_once_step:
  assumes "held_once d" and "t1 \<noteq> 0"
  shows "\<exists>d'. button_block True t1 t2 d = Continue d' \<and> held_once d'"
  using assms by (auto simp: held_once_def button_block_def Let_def)

lemma one_action_per_hold:
  assumes "held_once d" and "\<forall>s \<in> set samples. fst s \<and> fst (snd s) \<noteq> 0"
  shows "\<exists>d'. run_buttons samples d = Continue d' \<and> held_once d'"
  using assms
proof (induction samples arbitrary: d)
  case Nil
  then show ?case by simp
next
  case (Cons s rest)
  obtain low t1 t2 where s: "s = (low, t1, t2)" by (cases s) auto
  with Cons.prems(2) have "low" "t1 \<noteq> 0" by auto
  with held_once_step [OF Cons.prems(1), of t1 t2] obtain d' where
    d': "button_block low t1 t2 d = Continue d'" "held_once d'" by auto
  from Cons.IH [OF d'(2)] Cons.prems(2) d'(1) s show ?case by simp
qed

section \<open>Results on the firmware update engine\<close>

subsection \<open>The update check\<close>

text \<open>
  C4, as stated, fails on the current firmware: with no stored identifier and the entity
  tag \<open>"v2"\<close> in the response, the check schedules the update (the pending request
  becomes \<open>"v2"\<close>), and the next pass of \<open>loop\<close> hands it to \<open>startOTAUpdate\<close>.
\<close>

theorem first_check_schedules_update_counterexample:
  "currentFirmwareETag first_run_settings = [] \<and> pendingOTA_ETag example_device = [] \<and>
   ce_etag check_env_v2 = [0x76, 0x32] \<and>
   pendingOTA_ETag (checkForFirmwareUpdate check_env_v2 first_run_settings example_device)
     = [0x76, 0x32]"
  by (simp add: checkForFirmwareUpdate_def check_env_v2_def first_run_settings_def
      initial_settings_def example_device_def HTTP_CODE_OK_def)

text \<open>
  C4 (amended): in the current firmware a check changes the pending request only when it
  is answered with status 200 and a non-empty entity tag that differs from the stored
  identifier, and in that case, an empty stored identifier included, it schedules the
  update for that tag; the check itself stores nothing. In the earlier revision
  \<open>hu-061.ino\<close> a first observation with no stored identifier only keeps the tag in the
  global, and the update is started exactly when a non-empty stored identifier differs
  from the non-empty tag of the response.
\<close>

theorem checkForFirmwareUpdate_schedules:
  "(pendingOTA_ETag (checkForFirmwareUpdate e cfg d) \<noteq> pendingOTA_ETag d \<longrightarrow>
      check_answered e cfg \<and> ce_client e \<and> ce_etag e \<noteq> [] \<and>
      currentFirmwareETag cfg \<noteq> ce_etag e) \<and>
   (check_answered e cfg \<and> ce_client e \<and> ce_etag e \<noteq> [] \<and>
      currentFirmwareETag cfg \<noteq> ce_etag e \<longrightarrow>
      pendingOTA_ETag (checkForFirmwareUpdate e cfg d) = ce_etag e) \<and>
   (check_answered e cfg \<and> ce_etag e \<noteq> [] \<and> currentFirmwareETag cfg = [] \<longrightarrow>
      checkForFirmwareUpdate_hu061 e cfg = (cfg\<lparr> currentFirmwareETag := ce_etag e \<rparr>, False)) \<and>
   (snd (checkForFirmwareUpdate_hu061 e cfg) \<longleftrightarrow>
      check_answered e cfg \<and> ce_etag e \<noteq> [] \<and> currentFirmwareETag cfg \<noteq> [] \<and>
      currentFirmwareETag cfg \<noteq> ce_etag e)"
  by (auto simp: checkForFirmwareUpdate_def checkForFirmwareUpdate_hu061_def check_answered_def
      Let_def)

theorem checkForFirmwareUpdate_schedules_witness:
  "check_answered check_env_v2 first_run_settings \<and> ce_client check_env_v2 \<and>
   ce_etag check_env_v2 \<noteq> [] \<and> currentFirmwareETag first_run_settings = [] \<and>
   pendingOTA_ETag (checkForFirmwareUpdate check_env_v2 first_run_settings example_device)
     = ce_etag check_env_v2 \<and>
   checkForFirmwareUpdate_hu061 check_env_v2 first_run_settings
     = (first_run_settings\<lparr> currentFirmwareETag := ce_etag check_env_v2 \<rparr>, False)"
  using checkForFirmwareUpdate_schedules [of check_env_v2 first_run_settings example_device]
  by (simp add: check_answered_def check_env_v2_def first_run_settings_def initial_settings_def
      HTTP_CODE_OK_def)

subsection \<open>The download\<close>

text \<open>The loop of the source, with its running count and its time of the last data, ends
  where the history of the connection says the download ends, with that exit.\<close>

lemma data_passes_snoc:
  "data_passes (p @ [k]) = (if ck_size k \<noteq> 0 then data_passes p @ [k] else data_passes p)"
  by (simp add: data_passes_def)

lemma delivered_snoc:
  "delivered (p @ [k]) = (if ck_size k \<noteq> 0 then delivered p + int (ck_read k) else delivered p)"
  by (simp add: delivered_def data_passes_snoc)

lemma last_data_snoc:
  "last_data t0 (p @ [k]) = (if ck_size k \<noteq> 0 then ck_now k else last_data t0 p)"
  by (simp add: last_data_def data_passes_snoc)

lemma ota_stream_pass:
  "ota_stream cl (k # ks) (delivered p) (last_data t0 p) =
     (case pass_outcome cl t0 p k of
        Some x \<Rightarrow> Some x
      | None \<Rightarrow> ota_stream cl ks (delivered (p @ [k])) (last_data t0 (p @ [k])))"
  by (simp add: pass_outcome_def delivered_snoc last_data_snoc)

lemma ota_stream_history:
  "ota_stream cl ks (delivered p) (last_data t0 p) = Some x \<longleftrightarrow>
     (\<exists>j < length ks. (\<forall>i < j. pass_outcome cl t0 (p @ take i ks) (ks ! i) = None) \<and>
        pass_outcome cl t0 (p @ take j ks) (ks ! j) = Some x)"
proof (induction ks arbitrary: p)
  case Nil
  then show ?case by simp
next
  case (Cons k ks)
  show ?case
  proof (cases "pass_outcome cl t0 p k")
    case None
    have "ota_stream cl (k # ks) (delivered p) (last_data t0 p) = Some x \<longleftrightarrow>
          ota_stream cl ks (delivered (p @ [k])) (last_data t0 (p @ [k])) = Some x"
      unfolding ota_stream_pass None by simp
    also have "\<dots> \<longleftrightarrow> (\<exists>j < length ks.
          (\<forall>i < j. pass_outcome cl t0 ((p @ [k]) @ take i ks) (ks ! i) = None) \<and>
          pass_outcome cl t0 ((p @ [k]) @ take j ks) (ks ! j) = Some x)"
      by (rule Cons.IH)
    also have "\<dots> \<longleftrightarrow> (\<exists>j < length (k # ks).
          (\<forall>i < j. pass_outcome cl t0 (p @ take i (k # ks)) ((k # ks) ! i) = None) \<and>
          pass_outcome cl t0 (p @ take j (k # ks)) ((k # ks) ! j) = Some x)"
      using None by (simp add: Ex_less_Suc2 All_less_Suc2)
    finally show ?thesis .
  next
    case (Some y)
    have "ota_stream cl (k # ks) (delivered p) (last_data t0 p) = Some x \<longleftrightarrow> y = x"
      unfolding ota_stream_pass Some by simp
    also have "\<dots> \<longleftrightarrow> (\<exists>j < length (k # ks).
          (\<forall>i < j. pass_outcome cl t0 (p @ take i (k # ks)) ((k # ks) ! i) = None) \<and>
          pass_outcome cl t0 (p @ take j (k # ks)) ((k # ks) ! j) = Some x)"
      using Some by (auto simp: Ex_less_Suc2 All_less_Suc2)
    finally show ?thesis .
  qed
qed

lemma ota_stream_ends:
  "ota_stream cl ks 0 t0 = Some x \<longleftrightarrow> (\<exists>j. stream_ends_at cl t0 ks j x)"
  using ota_stream_history [of cl ks "[]" t0 x]
  by (simp add: stream_ends_at_def delivered_def last_data_def data_passes_def)

lemma try_connect_http_ok:
  "try_connect (oe_attempt e) [0, 1, 2] (- 1) = Inr HTTP_CODE_OK \<longleftrightarrow> http_ok e"
  by (auto simp: http_ok_def HTTP_CODE_OK_def atMost_Suc numeral_2_eq_2)




lemma startOTAUpdate_early:
  "\<not> wifi_up e \<Longrightarrow> startOTAUpdate e tag cfg m = Some (m, WiFiFailed)"
  "wifi_up e \<Longrightarrow> firmwareUrl cfg = [] \<Longrightarrow> startOTAUpdate e tag cfg m = Some (m, NoUrl)"
  by (auto simp: startOTAUpdate_def wifi_up_def)

lemma startOTAUpdate_stream:
  assumes "wifi_up e" "firmwareUrl cfg \<noteq> []" "http_ok e" "oe_update_begin e"
  shows "startOTAUpdate e tag cfg m =
     (case ota_stream (oe_size e) (oe_chunks e) 0 (oe_t0 e) of
        None \<Rightarrow> None
      | Some Stalled \<Rightarrow> Some (m, UpdateTimeout)
      | Some (Done received write_error) \<Rightarrow>
          if oe_size e > 0 \<and> received \<noteq> oe_size e then Some (m, Incomplete received)
          else if oe_update_end e (oe_size e = - 1) then
            Some (if tag \<noteq> [] then store_etag m tag else m, UpdateSuccess received)
          else Some (m, UpdateFailed))"
proof -
  from assms(3) have "try_connect (oe_attempt e) [0, 1, 2] (- 1) = Inr HTTP_CODE_OK"
    by (simp only: try_connect_http_ok)
  with assms(1,2,4) show ?thesis
    unfolding startOTAUpdate_def wifi_up_def by auto
qed


lemma startOTAUpdate_returns:
  "startOTAUpdate e tag cfg m = None \<longleftrightarrow>
     wifi_up e \<and> firmwareUrl cfg \<noteq> [] \<and> http_ok e \<and> oe_update_begin e \<and>
     (\<forall>j x. \<not> stream_ends_at (oe_size e) (oe_t0 e) (oe_chunks e) j x)"
proof (cases "wifi_up e \<and> firmwareUrl cfg \<noteq> [] \<and> http_ok e \<and> oe_update_begin e")
  case True
  then have "startOTAUpdate e tag cfg m = None \<longleftrightarrow>
      ota_stream (oe_size e) (oe_chunks e) 0 (oe_t0 e) = None"
    by (simp add: startOTAUpdate_stream split: option.splits stream_exit.splits)
  also have "\<dots> \<longleftrightarrow> (\<forall>j x. \<not> stream_ends_at (oe_size e) (oe_t0 e) (oe_chunks e) j x)"
    using ota_stream_ends [of "oe_size e" "oe_chunks e" "oe_t0 e"]
    by (metis not_Some_eq)
  finally show ?thesis using True by simp
next
  case False
  then have nr: "\<not> wifi_up e \<or> firmwareUrl cfg = [] \<or> \<not> http_ok e \<or> \<not> oe_update_begin e"
    by auto
  have "startOTAUpdate e tag cfg m \<noteq> None"
  proof (cases "wifi_up e \<and> firmwareUrl cfg \<noteq> []")
    case False
    then show ?thesis
      using startOTAUpdate_early [where e = e and cfg = cfg and m = m and tag = tag] by auto
  next
    case True
    show ?thesis
    proof (cases "try_connect (oe_attempt e) [0, 1, 2] (- 1)")
      case (Inl r0)
      with True show ?thesis
        unfolding startOTAUpdate_def wifi_up_def by (auto simp del: try_connect.simps)
    next
      case (Inr c)
      show ?thesis
      proof (cases "http_ok e")
        case ok: True
        with nr True have "\<not> oe_update_begin e" by simp
        with Inr True show ?thesis
          unfolding startOTAUpdate_def wifi_up_def by (auto simp del: try_connect.simps)
      next
        case False
        then have "c \<noteq> HTTP_CODE_OK" using Inr try_connect_http_ok [of e] by simp
        with Inr True show ?thesis
          unfolding startOTAUpdate_def wifi_up_def by (auto simp del: try_connect.simps)
      qed
    qed
  qed
  with False show ?thesis by blast
qed




text \<open>A complete download commits; one that the peer cuts after four of eight declared
  bytes does not; neither does one started without Wi-Fi.\<close>

lemma sized_download:
  "startOTAUpdate sized_env [0x76, 0x32] first_run_settings erased_eeprom
     = Some (store_etag erased_eeprom [0x76, 0x32], UpdateSuccess 8)"
  by (simp add: startOTAUpdate_def sized_env_def chunked_env_def first_run_settings_def
      initial_settings_def HTTP_CODE_OK_def)


lemma offline_download:
  "startOTAUpdate offline_env [0x76, 0x32] first_run_settings erased_eeprom
     = Some (erased_eeprom, WiFiFailed)"
  by (simp add: startOTAUpdate_def offline_env_def chunked_env_def)



end
